theory Spec2Isabelle
  imports Main
begin

text \<open>
  The message core of the chat server: the socket handlers of
  services/socketService.ts, the message controller and the group controller, over the
  Mongoose models of models/message.ts and models/group.ts. Each handler is a function
  from the server state (and the time of the call) to the new state; what a handler
  emits is appended to a log of deliveries; a rejected \<open>save\<close> is a value, and the
  handler's \<open>catch\<close> branch is the case that receives it.
\<close>

section \<open>Data model\<close>

text \<open>
  Mongo ObjectIds are modelled as natural numbers (the handlers only compare them for
  equality and, for the direct-chat room name, sort the two participants' ids; 24-digit
  hexadecimal strings of equal length sort like the numbers they denote). Dates are
  integers, milliseconds since the epoch, as \<open>Date.getTime()\<close> gives them.
  Socket ids are natural numbers.
\<close>

type_synonym objectId = nat
type_synonym time = int
type_synonym socketId = nat

text \<open>
  models/message.ts: the \<open>messageType\<close> enum and the \<open>IMessage\<close> document. The
  fields \<open>_id\<close>, \<open>text\<close> and \<open>group\<close> are called \<open>mid\<close>, \<open>msgText\<close> and
  \<open>groupRef\<close> here; \<open>createdAt\<close> and \<open>updatedAt\<close> are the two fields of the
  schema's \<open>timestamps\<close> option.
\<close>

datatype messageType = TextType | ImageType | VideoType | SystemType

record message =
  mid :: objectId
  sender :: objectId
  receiver :: "objectId option"
  groupRef :: "objectId option"
  msgText :: "string option"
  imageUrl :: "string option"
  videoUrl :: "string option"
  messageType :: messageType
  isRead :: bool
  isEdited :: bool
  editedAt :: "time option"
  deletedForSender :: bool
  deletedForReceiver :: bool
  deletedForEveryone :: bool
  deletedForUsers :: "objectId list"
  deletedAt :: "time option"
  removedMemberId :: "objectId option"
  createdAt :: time
  updatedAt :: time

text \<open>
  models/user.ts is not part of the sources; the handlers read two fields of a user
  document, \<open>username\<close> and \<open>blockedUsers\<close> (an absent list behaves like the empty one
  under \<open>blockedUsers?.includes\<close>).
\<close>

record userDoc =
  uid :: objectId
  username :: string
  blockedUsers :: "objectId list"

text \<open>models/group.ts.\<close>

datatype role = Admin | Member

record member =
  m_user :: objectId
  m_role :: role
  m_joinedAt :: time
  m_unreadCount :: nat
  m_lastReadAt :: "time option"

record leftMember =
  l_user :: objectId
  l_leftAt :: time

record removedMember =
  r_user :: objectId
  r_removedAt :: time
  r_removedBy :: objectId

record latestMessage =
  lm_messageId :: objectId
  lm_text :: "string option"
  lm_messageType :: messageType
  lm_sender :: objectId
  lm_senderUsername :: string
  lm_createdAt :: time

record groupDoc =
  gid :: objectId
  g_name :: string
  g_createdBy :: objectId
  members :: "member list"
  leftMembers :: "leftMember list"
  removedMembers :: "removedMember list"
  latestMessage :: "latestMessage option"
  isActive :: bool

text \<open>
  services/socketService.ts: a room is either the direct-chat room
  \<open>chat_<sorted pair of ids>\<close> or the group room \<open>group_<id>\<close>; a connected socket
  carries the authenticated user and the rooms it joined; a registry entry is the value
  \<open>{userId, socketId, username}\<close> stored in \<open>onlineUsers\<close>.
\<close>

datatype room = ChatRoom objectId objectId | GroupRoom objectId

record socket =
  sock_id :: socketId
  userId :: objectId
  sock_username :: string
  rooms :: "room set"

record onlineUser =
  ou_userId :: objectId
  ou_socketId :: socketId
  ou_username :: string

text \<open>Events pushed to clients; populated user names in payloads are left out.\<close>

datatype event =
    ReceiveMessage message
  | MessageSent message
  | MessagesRead objectId
  | MessageEdited message
  | MessageDeletedForMe message
  | MessageDeletedForEveryone message
  | NewMessage message
  | OnlineUsers "onlineUser list"
  | UserOnline objectId string
  | UserOffline objectId string
  | GroupCreated objectId
  | MemberRemovedFromGroup objectId message
  | GroupMemberRemoved objectId objectId message
  | GroupMemberLeft objectId objectId message
  | ErrorEvent string

text \<open>
  The server state: the three collections, the ObjectId generator, the process-wide
  \<open>onlineUsers\<close> map (a JavaScript \<open>Map\<close>: insertion-ordered, one entry per key), the
  connected sockets of \<open>io.sockets.sockets\<close>, the \<open>userRooms\<close> tracking map, and the
  deliveries made so far: \<open>(s, e)\<close> in \<open>outbox\<close> means that the connection with socket
  id \<open>s\<close> was sent event \<open>e\<close>, oldest first.
\<close>

record state =
  messages :: "message list"
  groups :: "groupDoc list"
  users :: "userDoc list"
  nextObjectId :: objectId
  onlineUsers :: "(objectId \<times> onlineUser) list"
  sockets :: "socket list"
  userRooms :: "objectId \<rightharpoonup> room set"
  outbox :: "(socketId \<times> event) list"

section \<open>Store and socket primitives\<close>

definition findUser :: "state \<Rightarrow> objectId \<Rightarrow> userDoc option" where
  "findUser st u = find (\<lambda>d. uid d = u) (users st)"

definition findMessageById :: "state \<Rightarrow> objectId \<Rightarrow> message option" where
  "findMessageById st i = find (\<lambda>m. mid m = i) (messages st)"

definition findGroupById :: "state \<Rightarrow> objectId \<Rightarrow> groupDoc option" where
  "findGroupById st g = find (\<lambda>d. gid d = g) (groups st)"

text \<open>\<open>user.blockedUsers?.includes(id)\<close> on a possibly missing user document.\<close>

definition hasBlocked :: "userDoc option \<Rightarrow> objectId \<Rightarrow> bool" where
  "hasBlocked u other = (case u of None \<Rightarrow> False | Some d \<Rightarrow> other \<in> set (blockedUsers d))"

text \<open>\<open>Array.from(onlineUsers.values()).find(user => user.userId === id)\<close>.\<close>

definition findOnline :: "state \<Rightarrow> objectId \<Rightarrow> onlineUser option" where
  "findOnline st u = find (\<lambda>e. ou_userId e = u) (map snd (onlineUsers st))"

text \<open>\<open>io.sockets.sockets.get(socketId)\<close>.\<close>

definition getSocket :: "state \<Rightarrow> socketId \<Rightarrow> socket option" where
  "getSocket st s = find (\<lambda>c. sock_id c = s) (sockets st)"

text \<open>\<open>Map.set\<close> keeps the position of an existing key and appends a new one.\<close>

fun mapSet :: "'k \<Rightarrow> 'v \<Rightarrow> ('k \<times> 'v) list \<Rightarrow> ('k \<times> 'v) list" where
  "mapSet k v [] = [(k, v)]"
| "mapSet k v ((k', v') # kvs) = (if k' = k then (k, v) # kvs else (k', v') # mapSet k v kvs)"

definition mapDelete :: "'k \<Rightarrow> ('k \<times> 'v) list \<Rightarrow> ('k \<times> 'v) list" where
  "mapDelete k kvs = filter (\<lambda>kv. fst kv \<noteq> k) kvs"

text \<open>
  \<open>socket.emit\<close> delivers to the handler's own connection; \<open>io.to(socketId).emit\<close>
  delivers to the connection with that id when it is connected and to nobody otherwise;
  \<open>io.to(room).emit\<close> delivers to every connected socket that joined the room.
\<close>

definition socketEmit :: "state \<Rightarrow> socket \<Rightarrow> event \<Rightarrow> state" where
  "socketEmit st s e = st\<lparr>outbox := outbox st @ [(sock_id s, e)]\<rparr>"

definition ioTo :: "state \<Rightarrow> socketId \<Rightarrow> event \<Rightarrow> state" where
  "ioTo st s e = (case getSocket st s of None \<Rightarrow> st
                  | Some c \<Rightarrow> st\<lparr>outbox := outbox st @ [(s, e)]\<rparr>)"

definition ioToRoom :: "state \<Rightarrow> room \<Rightarrow> event \<Rightarrow> state" where
  "ioToRoom st r e =
     st\<lparr>outbox := outbox st @ map (\<lambda>c. (sock_id c, e)) (filter (\<lambda>c. r \<in> rooms c) (sockets st))\<rparr>"

text \<open>\<open>[a, b].sort().join('_')\<close> prefixed with \<open>chat_\<close>.\<close>

definition chatRoom :: "objectId \<Rightarrow> objectId \<Rightarrow> room" where
  "chatRoom a b = ChatRoom (min a b) (max a b)"

text \<open>\<open>new mongoose.Types.ObjectId()\<close>: a fresh id.\<close>

definition newObjectId :: "state \<Rightarrow> objectId \<times> state" where
  "newObjectId st = (nextObjectId st, st\<lparr>nextObjectId := Suc (nextObjectId st)\<rparr>)"

text \<open>
  \<open>new Message(fields)\<close>: the schema defaults (\<open>messageType\<close> text, every flag false,
  \<open>deletedForUsers\<close> empty); the timestamps are written by \<open>save\<close>.
\<close>

definition newMessage :: "objectId \<Rightarrow> objectId \<Rightarrow> message" where
  "newMessage i s =
     \<lparr>mid = i, sender = s, receiver = None, groupRef = None, msgText = None,
      imageUrl = None, videoUrl = None, messageType = TextType, isRead = False,
      isEdited = False, editedAt = None, deletedForSender = False,
      deletedForReceiver = False, deletedForEveryone = False, deletedForUsers = [],
      deletedAt = None, removedMemberId = None, createdAt = 0, updatedAt = 0\<rparr>"

text \<open>
  The \<open>pre('validate')\<close> hook of models/message.ts (lines 91-99): a document with
  neither or with both of receiver and group is refused.
\<close>

definition preValidate :: "message \<Rightarrow> bool" where
  "preValidate m =
     (if receiver m = None \<and> groupRef m = None then False
      else if receiver m \<noteq> None \<and> groupRef m \<noteq> None then False
      else True)"

text \<open>The \<open>maxlength: 1000\<close> validator of the \<open>text\<close> path; an absent text passes.\<close>

definition textValid :: "message \<Rightarrow> bool" where
  "textValid m = (case msgText m of None \<Rightarrow> True | Some t \<Rightarrow> length t \<le> 1000)"

text \<open>
  \<open>message.save()\<close> on a new document: validation, then the insert with both
  timestamps. \<open>None\<close> is the rejected promise (a ValidationError), which every handler
  catches in its \<open>try\<close> block.
\<close>

definition saveNew :: "state \<Rightarrow> message \<Rightarrow> time \<Rightarrow> (message \<times> state) option" where
  "saveNew st m now =
     (if preValidate m \<and> textValid m
      then (let m' = m\<lparr>createdAt := now, updatedAt := now\<rparr>
            in Some (m', st\<lparr>messages := messages st @ [m']\<rparr>))
      else None)"

text \<open>
  \<open>message.save()\<close> on a document loaded from the store: the hook runs, the \<open>text\<close>
  validator runs when the handler assigned \<open>text\<close>, and the first stored document with
  the same \<open>_id\<close> is replaced (\<open>updatedAt\<close> refreshed).
\<close>

fun replaceById :: "message \<Rightarrow> message list \<Rightarrow> message list" where
  "replaceById m [] = []"
| "replaceById m (x # xs) = (if mid x = mid m then m # xs else x # replaceById m xs)"

definition saveExisting :: "state \<Rightarrow> message \<Rightarrow> bool \<Rightarrow> time \<Rightarrow> (message \<times> state) option" where
  "saveExisting st m textModified now =
     (if preValidate m \<and> (textModified \<longrightarrow> textValid m)
      then (let m' = m\<lparr>updatedAt := now\<rparr>
            in Some (m', st\<lparr>messages := replaceById m' (messages st)\<rparr>))
      else None)"


section \<open>Direct messages over the socket: handleSendMessage\<close>

text \<open>The payload of the \<open>sendMessage\<close> event.\<close>

record sendData =
  receiverId :: objectId
  sd_text :: "string option"
  imageData :: "string option"
  videoData :: "string option"
  sd_messageType :: "messageType option"

text \<open>\<open>data.text || ''\<close>.\<close>

definition textOrEmpty :: "string option \<Rightarrow> string" where
  "textOrEmpty t = (case t of None \<Rightarrow> [] | Some x \<Rightarrow> x)"

text \<open>
  The object literal echoed to a blocked sender (lines 190-198 and 204-212): it is built
  in place with a fresh id and is never handed to \<open>save\<close>.
\<close>

definition blockedEcho :: "objectId \<Rightarrow> socket \<Rightarrow> sendData \<Rightarrow> messageType \<Rightarrow> time \<Rightarrow> message" where
  "blockedEcho i s d t now =
     (newMessage i (userId s))\<lparr>receiver := Some (receiverId d),
        msgText := Some (textOrEmpty (sd_text d)), messageType := t, isRead := False,
        createdAt := now\<rparr>"

text \<open>
  Lines 225-237: the receiver counts as viewing the chat when the registry has an entry
  for them, that entry's socket is connected and it has joined the pair's chat room.
\<close>

definition receiverViewing :: "state \<Rightarrow> objectId \<Rightarrow> objectId \<Rightarrow> bool" where
  "receiverViewing st me other =
     (case findOnline st other of None \<Rightarrow> False
      | Some receiverUser \<Rightarrow>
          (case getSocket st (ou_socketId receiverUser) of None \<Rightarrow> False
           | Some receiverSocketInstance \<Rightarrow> chatRoom me other \<in> rooms receiverSocketInstance))"

text \<open>Lines 239-254: the fields of the new direct message.\<close>

definition directMessageData :: "objectId \<Rightarrow> objectId \<Rightarrow> sendData \<Rightarrow> messageType \<Rightarrow> bool \<Rightarrow> message" where
  "directMessageData i me d t r =
     (let base = (newMessage i me)\<lparr>receiver := Some (receiverId d), messageType := t, isRead := r\<rparr>
      in if t = TextType then base\<lparr>msgText := Some (textOrEmpty (sd_text d))\<rparr>
         else if t = ImageType then base\<lparr>imageUrl := imageData d, msgText := Some []\<rparr>
         else if t = VideoType then base\<lparr>videoUrl := videoData d, msgText := Some []\<rparr>
         else base)"

definition handleSendMessage :: "state \<Rightarrow> socket \<Rightarrow> sendData \<Rightarrow> time \<Rightarrow> state" where
  "handleSendMessage st s d now =
     (let t = (case sd_messageType d of None \<Rightarrow> TextType | Some x \<Rightarrow> x);
          receiverDoc = findUser st (receiverId d);
          senderDoc = findUser st (userId s)
      in if receiverDoc \<noteq> None \<and> hasBlocked receiverDoc (userId s) then
           (case newObjectId st of (i, st1) \<Rightarrow>
              socketEmit st1 s (MessageSent (blockedEcho i s d t now)))
         else if senderDoc \<noteq> None \<and> hasBlocked senderDoc (receiverId d) then
           (case newObjectId st of (i, st1) \<Rightarrow>
              socketEmit st1 s (MessageSent (blockedEcho i s d t now)))
         else
           (let receiverUser = findOnline st (receiverId d);
                r = receiverViewing st (userId s) (receiverId d)
            in case newObjectId st of (i, st1) \<Rightarrow>
              (case saveNew st1 (directMessageData i (userId s) d t r) now of
                 None \<Rightarrow> socketEmit st1 s (ErrorEvent ''Failed to send message'')
               | Some (msg, st2) \<Rightarrow>
                   (let st3 = (case findOnline st2 (receiverId d) of None \<Rightarrow> st2
                               | Some receiverSocket \<Rightarrow>
                                   ioTo st2 (ou_socketId receiverSocket) (ReceiveMessage msg));
                        st4 = socketEmit st3 s (MessageSent msg)
                    in if r \<and> receiverUser \<noteq> None
                       then socketEmit st4 s (MessagesRead (receiverId d))
                       else st4))))"

section \<open>Direct messages over HTTP: sendMessage\<close>

datatype response = Response nat string | ResponseMessage nat message

record sendBody =
  b_receiverId :: "objectId option"
  b_text :: "string option"
  b_imageData :: "string option"
  b_videoData :: "string option"
  b_messageType :: "messageType option"

text \<open>
  \<open>String.prototype.trim\<close> on the Latin-1 white space and line terminators (tab, line
  feed, vertical tab, form feed, carriage return, space, no-break space).
\<close>

definition isWhiteSpace :: "char \<Rightarrow> bool" where
  "isWhiteSpace c = (of_char c \<in> {9::nat, 10, 11, 12, 13, 32, 160})"

definition trim :: "string \<Rightarrow> string" where
  "trim t = rev (dropWhile isWhiteSpace (rev (dropWhile isWhiteSpace t)))"

text \<open>\<open>!text?.trim()\<close>: a missing text or one that trims to the empty string.\<close>

definition blankText :: "string option \<Rightarrow> bool" where
  "blankText t = (case t of None \<Rightarrow> True | Some x \<Rightarrow> trim x = [])"

text \<open>\<open>!data\<close> on an optional string, and \<open>data.startsWith(p)\<close>.\<close>

definition missing :: "string option \<Rightarrow> bool" where
  "missing t = (case t of None \<Rightarrow> True | Some x \<Rightarrow> x = [])"

definition startsWith :: "string \<Rightarrow> string option \<Rightarrow> bool" where
  "startsWith p t = (case t of None \<Rightarrow> False | Some x \<Rightarrow> take (length p) x = p)"

definition sendMessage :: "state \<Rightarrow> objectId \<Rightarrow> sendBody \<Rightarrow> time \<Rightarrow> response \<times> state" where
  "sendMessage st senderId b now =
     (case b_receiverId b of
        None \<Rightarrow> (Response 400 ''Receiver ID is required'', st)
      | Some rid \<Rightarrow>
         (case b_messageType b of
            None \<Rightarrow> (Response 400 ''Invalid message type'', st)
          | Some t \<Rightarrow>
             if t = SystemType then (Response 400 ''Invalid message type'', st)
             else if t = TextType \<and> blankText (b_text b)
               then (Response 400 ''Text message cannot be empty'', st)
             else if t = ImageType \<and> missing (b_imageData b)
               then (Response 400 ''Image data is required for image messages'', st)
             else if t = VideoType \<and> missing (b_videoData b)
               then (Response 400 ''Video data is required for video messages'', st)
             else if t = ImageType \<and> \<not> startsWith ''data:image/'' (b_imageData b)
               then (Response 400 ''Invalid image format'', st)
             else if t = VideoType \<and> \<not> startsWith ''data:video/'' (b_videoData b)
               then (Response 400 ''Invalid video format'', st)
             else
               (let receiverDoc = findUser st rid; senderDoc = findUser st senderId
                in if receiverDoc \<noteq> None \<and> hasBlocked receiverDoc senderId
                     then (Response 403 ''You are blocked by this user'', st)
                   else if senderDoc \<noteq> None \<and> hasBlocked senderDoc rid
                     then (Response 403 ''You have blocked this user'', st)
                   else
                     (case newObjectId st of (i, st1) \<Rightarrow>
                        (let base = (newMessage i senderId)\<lparr>receiver := Some rid,
                                       messageType := t, isRead := False\<rparr>;
                             messageData =
                               (if t = TextType
                                  then base\<lparr>msgText := Some (trim (textOrEmpty (b_text b)))\<rparr>
                                else if t = ImageType
                                  then base\<lparr>imageUrl := b_imageData b, msgText := Some []\<rparr>
                                else base\<lparr>videoUrl := b_videoData b, msgText := Some []\<rparr>)
                         in case saveNew st1 messageData now of
                              None \<Rightarrow> (Response 500 ''Internal server error'', st1)
                            | Some (msg, st2) \<Rightarrow> (ResponseMessage 201 msg, st2))))))"

section \<open>Group messages over the socket: handleSendGroupMessage\<close>

record groupSendData =
  groupId :: objectId
  gs_text :: "string option"
  gs_imageData :: "string option"
  gs_videoData :: "string option"
  gs_messageType :: "messageType option"

text \<open>\<open>Group.findOne({_id, 'members.user': userId, isActive: true})\<close> and its sibling on
  \<open>removedMembers.user\<close>.\<close>

definition findMemberGroup :: "state \<Rightarrow> objectId \<Rightarrow> objectId \<Rightarrow> groupDoc option" where
  "findMemberGroup st g u =
     find (\<lambda>d. gid d = g \<and> u \<in> set (map m_user (members d)) \<and> isActive d) (groups st)"

definition findRemovedGroup :: "state \<Rightarrow> objectId \<Rightarrow> objectId \<Rightarrow> groupDoc option" where
  "findRemovedGroup st g u =
     find (\<lambda>d. gid d = g \<and> u \<in> set (map r_user (removedMembers d)) \<and> isActive d) (groups st)"

text \<open>
  Lines 646-665: the two lists the handler collects while it walks the members, the
  members the sender has blocked and the members who have blocked the sender.
\<close>

definition blockedMembersOf :: "userDoc \<Rightarrow> objectId \<Rightarrow> groupDoc \<Rightarrow> objectId list" where
  "blockedMembersOf senderDoc me g =
     filter (\<lambda>memberId. memberId \<noteq> me \<and> memberId \<in> set (blockedUsers senderDoc))
       (map m_user (members g))"

definition blockingMembersOf :: "state \<Rightarrow> objectId \<Rightarrow> groupDoc \<Rightarrow> objectId list" where
  "blockingMembersOf st me g =
     filter (\<lambda>memberId. memberId \<noteq> me \<and> hasBlocked (findUser st memberId) me)
       (map m_user (members g))"

text \<open>Lines 698-712: \<open>Group.updateOne({_id}, {$set: {latestMessage}})\<close> on the first match.\<close>

fun setLatestMessage :: "objectId \<Rightarrow> latestMessage \<Rightarrow> groupDoc list \<Rightarrow> groupDoc list" where
  "setLatestMessage g l [] = []"
| "setLatestMessage g l (d # ds) =
     (if gid d = g then d\<lparr>latestMessage := Some l\<rparr> # ds else d # setLatestMessage g l ds)"

definition senderUsernameOf :: "state \<Rightarrow> socket \<Rightarrow> string" where
  "senderUsernameOf st s =
     (case findUser st (userId s) of
        Some d \<Rightarrow> (if username d \<noteq> [] then username d
                   else if sock_username s \<noteq> [] then sock_username s else ''Unknown'')
      | None \<Rightarrow> (if sock_username s \<noteq> [] then sock_username s else ''Unknown''))"

text \<open>Lines 716-724: the loop over \<open>group.members\<close>.\<close>

fun fanOutNewMessage :: "state \<Rightarrow> message \<Rightarrow> member list \<Rightarrow> state" where
  "fanOutNewMessage st msg [] = st"
| "fanOutNewMessage st msg (m # ms) =
     fanOutNewMessage
       (case findOnline st (m_user m) of None \<Rightarrow> st
        | Some onlineUser \<Rightarrow> ioTo st (ou_socketId onlineUser) (NewMessage msg))
       msg ms"

definition handleSendGroupMessage :: "state \<Rightarrow> socket \<Rightarrow> groupSendData \<Rightarrow> time \<Rightarrow> state" where
  "handleSendGroupMessage st s d now =
     (let t = (case gs_messageType d of None \<Rightarrow> TextType | Some x \<Rightarrow> x)
      in case findMemberGroup st (groupId d) (userId s) of
        None \<Rightarrow>
          (case findRemovedGroup st (groupId d) (userId s) of
             Some removedGroup \<Rightarrow> socketEmit st s (ErrorEvent ''You were removed from this group'')
           | None \<Rightarrow> socketEmit st s (ErrorEvent ''Group not found or access denied''))
      | Some g \<Rightarrow>
          (case findUser st (userId s) of
             None \<Rightarrow> socketEmit st s (ErrorEvent ''Sender not found'')
           | Some senderDoc \<Rightarrow>
               (let blockedMembers = blockedMembersOf senderDoc (userId s) g;
                    blockingMembers = blockingMembersOf st (userId s) g
                in case newObjectId st of (i, st1) \<Rightarrow>
                  (case saveNew st1
                          ((newMessage i (userId s))\<lparr>groupRef := Some (groupId d),
                             msgText := gs_text d, imageUrl := gs_imageData d,
                             videoUrl := gs_videoData d, messageType := t, isRead := False\<rparr>) now of
                     None \<Rightarrow> socketEmit st1 s (ErrorEvent ''Failed to send message'')
                   | Some (msg, st2) \<Rightarrow>
                       (let st3 = st2\<lparr>groups := setLatestMessage (groupId d)
                                      \<lparr>lm_messageId = mid msg, lm_text = msgText msg,
                                       lm_messageType = messageType msg, lm_sender = sender msg,
                                       lm_senderUsername = senderUsernameOf st2 s,
                                       lm_createdAt = createdAt msg\<rparr> (groups st2)\<rparr>;
                            st4 = fanOutNewMessage st3 msg (members g)
                        in socketEmit st4 s (MessageSent msg))))))"

section \<open>Editing: handleEditMessage and editMessage\<close>

text \<open>\<open>Message.findOne({_id, sender})\<close>: the message with that id, if the caller sent it.\<close>

definition findOwnMessage :: "state \<Rightarrow> objectId \<Rightarrow> objectId \<Rightarrow> message option" where
  "findOwnMessage st i u = find (\<lambda>m. mid m = i \<and> sender m = u) (messages st)"

definition twelveHoursInMs :: int where
  "twelveHoursInMs = 12 * 60 * 60 * 1000"

text \<open>
  Lines 366-368 of the socket handler, 341-343 of the controller: the three assignments
  of an edit. The \<open>text\<close> path counts as modified when its value changes.
\<close>

definition edited :: "message \<Rightarrow> string \<Rightarrow> time \<Rightarrow> message" where
  "edited m t now = m\<lparr>msgText := Some (trim t), isEdited := True, editedAt := Some now\<rparr>"

text \<open>
  \<open>populate\<close> replaces a reference by the referenced document, or by null when there
  is none; the handlers test the populated receiver and group before they push.
\<close>

definition populatedReceiver :: "state \<Rightarrow> message \<Rightarrow> objectId option" where
  "populatedReceiver st m =
     (case receiver m of None \<Rightarrow> None
      | Some r \<Rightarrow> (case findUser st r of None \<Rightarrow> None | Some d \<Rightarrow> Some r))"

definition populatedGroup :: "state \<Rightarrow> message \<Rightarrow> objectId option" where
  "populatedGroup st m =
     (case groupRef m of None \<Rightarrow> None
      | Some g \<Rightarrow> (case findGroupById st g of None \<Rightarrow> None | Some d \<Rightarrow> Some g))"

definition handleEditMessage :: "state \<Rightarrow> socket \<Rightarrow> objectId \<Rightarrow> string \<Rightarrow> time \<Rightarrow> state" where
  "handleEditMessage st s messageId newText now =
     (case findOwnMessage st messageId (userId s) of
        None \<Rightarrow> socketEmit st s
                  (ErrorEvent ''Message not found or you don't have permission to edit it'')
      | Some m \<Rightarrow>
          if now - createdAt m > twelveHoursInMs
            then socketEmit st s (ErrorEvent ''Cannot edit message older than 12 hours'')
          else if messageType m \<noteq> TextType
            then socketEmit st s (ErrorEvent ''Only text messages can be edited'')
          else
            (case saveExisting st (edited m newText now) (Some (trim newText) \<noteq> msgText m) now of
               None \<Rightarrow> socketEmit st s (ErrorEvent ''Failed to edit message'')
             | Some (msg, st1) \<Rightarrow>
                 (let st2 = socketEmit st1 s (MessageEdited msg);
                      st3 = (case populatedReceiver st2 msg of None \<Rightarrow> st2
                             | Some r \<Rightarrow>
                                 (case findOnline st2 r of None \<Rightarrow> st2
                                  | Some receiverSocket \<Rightarrow>
                                      ioTo st2 (ou_socketId receiverSocket) (MessageEdited msg)))
                  in case populatedGroup st3 msg of None \<Rightarrow> st3
                     | Some g \<Rightarrow> ioToRoom st3 (GroupRoom g) (MessageEdited msg))))"

definition editMessage :: "state \<Rightarrow> objectId \<Rightarrow> objectId \<Rightarrow> string option \<Rightarrow> time \<Rightarrow> response \<times> state" where
  "editMessage st caller messageId newText now =
     (if blankText newText then (Response 400 ''Text cannot be empty'', st)
      else
        (case findOwnMessage st messageId caller of
           None \<Rightarrow> (Response 404 ''Message not found or you don't have permission to edit it'', st)
         | Some m \<Rightarrow>
             if now - createdAt m > twelveHoursInMs
               then (Response 400 ''Cannot edit message older than 12 hours'', st)
             else if messageType m \<noteq> TextType
               then (Response 400 ''Only text messages can be edited'', st)
             else
               (case saveExisting st (edited m (textOrEmpty newText) now)
                       (Some (trim (textOrEmpty newText)) \<noteq> msgText m) now of
                  None \<Rightarrow> (Response 500 ''Internal server error'', st)
                | Some (msg, st1) \<Rightarrow> (ResponseMessage 200 msg, st1))))"

section \<open>Delete for me: handleDeleteMessageForMe and deleteMessageForMe\<close>

text \<open>Lines 455-460: the caller's id is pushed unless the array already includes it.\<close>

definition addDeletedForUser :: "objectId \<Rightarrow> message \<Rightarrow> message" where
  "addDeletedForUser u m =
     (if u \<in> set (deletedForUsers m) then m
      else m\<lparr>deletedForUsers := deletedForUsers m @ [u]\<rparr>)"

definition handleGroupMessageDeleteForMe :: "state \<Rightarrow> socket \<Rightarrow> message \<Rightarrow> objectId \<Rightarrow> time \<Rightarrow> state" where
  "handleGroupMessageDeleteForMe st s m g now =
     (case findMemberGroup st g (userId s) of
        None \<Rightarrow> socketEmit st s
                  (ErrorEvent ''You don't have permission to delete this message'')
      | Some grp \<Rightarrow>
          (let m1 = (if sender m = userId s then m\<lparr>deletedForSender := True\<rparr>
                     else addDeletedForUser (userId s) m)
           in case saveExisting st (m1\<lparr>deletedAt := Some now\<rparr>) False now of
                None \<Rightarrow> socketEmit st s (ErrorEvent ''Failed to delete message'')
              | Some (msg, st1) \<Rightarrow> socketEmit st1 s (MessageDeletedForMe msg)))"

definition handleNormalMessageDeleteForMe :: "state \<Rightarrow> socket \<Rightarrow> message \<Rightarrow> time \<Rightarrow> state" where
  "handleNormalMessageDeleteForMe st s m now =
     (let isSender = (sender m = userId s);
          isReceiver = (receiver m = Some (userId s))
      in if \<not> isSender \<and> \<not> isReceiver
           then socketEmit st s
                  (ErrorEvent ''You don't have permission to delete this message'')
         else
           (let m1 = (if isSender then m\<lparr>deletedForSender := True\<rparr>
                      else m\<lparr>deletedForReceiver := True\<rparr>)
            in case saveExisting st (m1\<lparr>deletedAt := Some now\<rparr>) False now of
                 None \<Rightarrow> socketEmit st s (ErrorEvent ''Failed to delete message'')
               | Some (msg, st1) \<Rightarrow> socketEmit st1 s (MessageDeletedForMe msg)))"

definition handleDeleteMessageForMe :: "state \<Rightarrow> socket \<Rightarrow> objectId \<Rightarrow> time \<Rightarrow> state" where
  "handleDeleteMessageForMe st s messageId now =
     (case findMessageById st messageId of
        None \<Rightarrow> socketEmit st s (ErrorEvent ''Message not found'')
      | Some m \<Rightarrow>
          (case groupRef m of
             Some g \<Rightarrow> handleGroupMessageDeleteForMe st s m g now
           | None \<Rightarrow> handleNormalMessageDeleteForMe st s m now))"

definition deleteMessageForMe :: "state \<Rightarrow> objectId \<Rightarrow> objectId \<Rightarrow> time \<Rightarrow> response \<times> state" where
  "deleteMessageForMe st caller messageId now =
     (case findMessageById st messageId of
        None \<Rightarrow> (Response 404 ''Message not found'', st)
      | Some m \<Rightarrow>
          (let isSender = (sender m = caller);
               isReceiver = (receiver m = Some caller);
               isGroupMember = (case groupRef m of None \<Rightarrow> False
                                | Some g \<Rightarrow> findMemberGroup st g caller \<noteq> None)
           in if \<not> isSender \<and> \<not> isReceiver \<and> \<not> isGroupMember
                then (Response 403 ''You don't have permission to delete this message'', st)
              else
                (let m1 = (if isSender then m\<lparr>deletedForSender := True\<rparr>
                           else if isReceiver then m\<lparr>deletedForReceiver := True\<rparr>
                           else addDeletedForUser caller m)
                 in case saveExisting st (m1\<lparr>deletedAt := Some now\<rparr>) False now of
                      None \<Rightarrow> (Response 500 ''Internal server error'', st)
                    | Some (msg, st1) \<Rightarrow> (Response 200 ''Message deleted for you'', st1))))"

section \<open>Delete for everyone: handleDeleteMessageForEveryone and deleteMessageForEveryone\<close>

definition tombstone :: string where
  "tombstone = ''This message was deleted''"

text \<open>
  Lines 547-550 and 580-583: the four assignments shared by the two socket handlers.
\<close>

definition tombstoned :: "message \<Rightarrow> time \<Rightarrow> message" where
  "tombstoned m now =
     m\<lparr>msgText := Some tombstone, deletedForEveryone := True, deletedAt := Some now,
       isEdited := True\<rparr>"

text \<open>\<open>group.save()\<close> after the handler replaced \<open>group.latestMessage\<close>.\<close>

fun replaceGroup :: "groupDoc \<Rightarrow> groupDoc list \<Rightarrow> groupDoc list" where
  "replaceGroup g [] = []"
| "replaceGroup g (d # ds) = (if gid d = gid g then g # ds else d # replaceGroup g ds)"

text \<open>
  The two handlers read \<open>message.group._id\<close> and \<open>message.sender._id\<close> after
  \<open>populate\<close>: when the referenced document is gone the read throws, after the save, and
  the outer \<open>catch\<close> reports the failure. In the normal handler the read sits in the
  callback of \<open>find\<close> over the registry, so it only happens when the registry is not empty.
\<close>

definition handleGroupMessageDeleteForEveryone :: "state \<Rightarrow> socket \<Rightarrow> message \<Rightarrow> time \<Rightarrow> state" where
  "handleGroupMessageDeleteForEveryone st s m now =
     (case saveExisting st (tombstoned m now) (Some tombstone \<noteq> msgText m) now of
        None \<Rightarrow> socketEmit st s (ErrorEvent ''Failed to delete message'')
      | Some (msg, st1) \<Rightarrow>
          (case populatedGroup st1 msg of
             None \<Rightarrow> socketEmit st1 s (ErrorEvent ''Failed to delete message'')
           | Some g \<Rightarrow>
               (case findGroupById st1 g of
                  None \<Rightarrow> ioToRoom st1 (GroupRoom g) (MessageDeletedForEveryone msg)
                | Some grp \<Rightarrow>
                    (case latestMessage grp of
                       None \<Rightarrow> ioToRoom st1 (GroupRoom g) (MessageDeletedForEveryone msg)
                     | Some l \<Rightarrow>
                         if lm_messageId l = mid msg then
                           (case findUser st1 (sender msg) of
                              None \<Rightarrow> socketEmit st1 s (ErrorEvent ''Failed to delete message'')
                            | Some senderDoc \<Rightarrow>
                                ioToRoom
                                  (st1\<lparr>groups := replaceGroup
                                     (grp\<lparr>latestMessage := Some
                                        \<lparr>lm_messageId = mid msg, lm_text = Some tombstone,
                                         lm_messageType = messageType msg,
                                         lm_sender = sender msg,
                                         lm_senderUsername = username senderDoc,
                                         lm_createdAt = createdAt msg\<rparr>\<rparr>) (groups st1)\<rparr>)
                                  (GroupRoom g) (MessageDeletedForEveryone msg))
                         else ioToRoom st1 (GroupRoom g) (MessageDeletedForEveryone msg)))))"

definition handleNormalMessageDeleteForEveryone :: "state \<Rightarrow> socket \<Rightarrow> message \<Rightarrow> time \<Rightarrow> state" where
  "handleNormalMessageDeleteForEveryone st s m now =
     (case saveExisting st (tombstoned m now) (Some tombstone \<noteq> msgText m) now of
        None \<Rightarrow> socketEmit st s (ErrorEvent ''Failed to delete message'')
      | Some (msg, st1) \<Rightarrow>
          (case findUser st1 (sender msg) of
             None \<Rightarrow> (if onlineUsers st1 = [] then st1
                       else socketEmit st1 s (ErrorEvent ''Failed to delete message''))
           | Some senderDoc \<Rightarrow>
               (let st2 = (case findOnline st1 (sender msg) of None \<Rightarrow> st1
                           | Some senderSocket \<Rightarrow>
                               ioTo st1 (ou_socketId senderSocket) (MessageDeletedForEveryone msg))
                in case populatedReceiver st2 msg of None \<Rightarrow> st2
                   | Some r \<Rightarrow>
                       (case findOnline st2 r of None \<Rightarrow> st2
                        | Some receiverSocket \<Rightarrow>
                            ioTo st2 (ou_socketId receiverSocket)
                              (MessageDeletedForEveryone msg)))))"

definition handleDeleteMessageForEveryone :: "state \<Rightarrow> socket \<Rightarrow> objectId \<Rightarrow> time \<Rightarrow> state" where
  "handleDeleteMessageForEveryone st s messageId now =
     (case findOwnMessage st messageId (userId s) of
        None \<Rightarrow> socketEmit st s
                  (ErrorEvent ''Message not found or you don't have permission to delete it'')
      | Some m \<Rightarrow>
          if now - createdAt m > twelveHoursInMs
            then socketEmit st s (ErrorEvent ''Cannot delete message older than 12 hours'')
          else if groupRef m \<noteq> None
            then handleGroupMessageDeleteForEveryone st s m now
          else handleNormalMessageDeleteForEveryone st s m now)"

text \<open>The controller (part_010, lines 431-475): only the flag and the date are assigned.\<close>

definition deleteMessageForEveryone :: "state \<Rightarrow> objectId \<Rightarrow> objectId \<Rightarrow> time \<Rightarrow> response \<times> state" where
  "deleteMessageForEveryone st caller messageId now =
     (case findOwnMessage st messageId caller of
        None \<Rightarrow> (Response 404 ''Message not found or you don't have permission to delete it'', st)
      | Some m \<Rightarrow>
          if now - createdAt m > twelveHoursInMs
            then (Response 400 ''Cannot delete message older than 12 hours'', st)
          else
            (case saveExisting st (m\<lparr>deletedForEveryone := True, deletedAt := Some now\<rparr>)
                    False now of
               None \<Rightarrow> (Response 500 ''Internal server error'', st)
             | Some (msg, st1) \<Rightarrow> (Response 200 ''Message deleted for everyone'', st1)))"

section \<open>Marking direct messages read\<close>

text \<open>
  \<open>Message.updateMany({sender, receiver, isRead: false}, {isRead: true})\<close>; the
  schema's \<open>timestamps\<close> option refreshes \<open>updatedAt\<close> of every document it changes.
\<close>

definition markRead :: "objectId \<Rightarrow> objectId \<Rightarrow> time \<Rightarrow> message \<Rightarrow> message" where
  "markRead senderId receiverId' now m =
     (if sender m = senderId \<and> receiver m = Some receiverId' \<and> \<not> isRead m
      then m\<lparr>isRead := True, updatedAt := now\<rparr> else m)"

definition handleMarkMessagesAsRead :: "state \<Rightarrow> socket \<Rightarrow> objectId \<Rightarrow> time \<Rightarrow> state" where
  "handleMarkMessagesAsRead st s senderId now =
     (let st1 = st\<lparr>messages := map (markRead senderId (userId s) now) (messages st)\<rparr>
      in case findOnline st1 senderId of None \<Rightarrow> st1
         | Some senderSocket \<Rightarrow> ioTo st1 (ou_socketId senderSocket) (MessagesRead senderId))"

definition markMessagesAsRead :: "state \<Rightarrow> objectId \<Rightarrow> objectId \<Rightarrow> time \<Rightarrow> response \<times> state" where
  "markMessagesAsRead st caller senderId now =
     (Response 200 ''Messages marked as read'',
      st\<lparr>messages := map (markRead senderId caller now) (messages st)\<rparr>)"

section \<open>Group read marker and unread count\<close>

text \<open>
  \<open>Group.updateOne({_id, 'members.user': userId}, {$set: {'members.$.lastReadAt': now,
  'members.$.unreadCount': 0}})\<close>: the first matching group, and in it the first member
  entry of the user.
\<close>

fun setMemberRead :: "objectId \<Rightarrow> time \<Rightarrow> member list \<Rightarrow> member list" where
  "setMemberRead u now [] = []"
| "setMemberRead u now (m # ms) =
     (if m_user m = u then m\<lparr>m_lastReadAt := Some now, m_unreadCount := 0\<rparr> # ms
      else m # setMemberRead u now ms)"

fun updateGroupRead :: "objectId \<Rightarrow> objectId \<Rightarrow> time \<Rightarrow> groupDoc list \<Rightarrow> groupDoc list" where
  "updateGroupRead g u now [] = []"
| "updateGroupRead g u now (d # ds) =
     (if gid d = g \<and> u \<in> set (map m_user (members d))
      then d\<lparr>members := setMemberRead u now (members d)\<rparr> # ds
      else d # updateGroupRead g u now ds)"

definition handleMarkGroupMessagesAsRead :: "state \<Rightarrow> socket \<Rightarrow> objectId \<Rightarrow> time \<Rightarrow> state" where
  "handleMarkGroupMessagesAsRead st s g now =
     st\<lparr>groups := updateGroupRead g (userId s) now (groups st)\<rparr>"

definition markGroupMessagesAsRead :: "state \<Rightarrow> objectId \<Rightarrow> objectId \<Rightarrow> time \<Rightarrow> response \<times> state" where
  "markGroupMessagesAsRead st caller g now =
     (case findMemberGroup st g caller of
        None \<Rightarrow> (Response 404 ''Group not found or access denied'', st)
      | Some grp \<Rightarrow> (Response 200 [], st\<lparr>groups := updateGroupRead g caller now (groups st)\<rparr>))"

text \<open>
  getUserGroups (part_008, lines 143-181): the \<open>countDocuments\<close> filter, clause by
  clause, and the count for one group; a user who is not a current member gets 0.
  \<open>userMember.lastReadAt || new Date(0)\<close> falls back to the epoch.
\<close>

definition unreadFilter :: "objectId \<Rightarrow> objectId \<Rightarrow> time \<Rightarrow> message \<Rightarrow> bool" where
  "unreadFilter g u lastReadAt m =
     (groupRef m = Some g \<and> createdAt m > lastReadAt \<and> sender m \<noteq> u \<and>
      (u \<notin> set (deletedForUsers m)) \<and>
      (sender m \<noteq> u \<or> deletedForSender m \<noteq> True))"

definition unreadCount :: "state \<Rightarrow> objectId \<Rightarrow> groupDoc \<Rightarrow> nat" where
  "unreadCount st u g =
     (case find (\<lambda>m. m_user m = u) (members g) of
        Some userMember \<Rightarrow>
          (let lastReadAt = (case m_lastReadAt userMember of None \<Rightarrow> 0 | Some t \<Rightarrow> t)
           in length (filter (unreadFilter (gid g) u lastReadAt) (messages st)))
      | None \<Rightarrow> 0)"

text \<open>
  The groups the request lists (current, left and removed memberships of active groups),
  each with its unread count; the latest-message part of the answer is left out.
\<close>

definition getUserGroups :: "state \<Rightarrow> objectId \<Rightarrow> (objectId \<times> nat) list" where
  "getUserGroups st u =
     map (\<lambda>g. (gid g, unreadCount st u g))
       (filter (\<lambda>g. (u \<in> set (map m_user (members g)) \<or> u \<in> set (map l_user (leftMembers g))
                       \<or> u \<in> set (map r_user (removedMembers g))) \<and> isActive g)
          (groups st))"

section \<open>Conversation view: getConversations\<close>



section \<open>Presence: handleSocketConnection\<close>

text \<open>Lines 111-149: notifyUserOnlineStatus, the loop over the registry's values.\<close>

fun notifyLoop :: "state \<Rightarrow> userDoc \<Rightarrow> objectId \<Rightarrow> string \<Rightarrow> bool \<Rightarrow> onlineUser list \<Rightarrow> state" where
  "notifyLoop st user u name isOnline [] = st"
| "notifyLoop st user u name isOnline (entry # entries) =
     notifyLoop
       (if ou_userId entry = u then st
        else (case findUser st (ou_userId entry) of
                None \<Rightarrow> st
              | Some otherUser \<Rightarrow>
                  (let isBlockedByThem = (u \<in> set (blockedUsers otherUser));
                       isBlockedByMe = (ou_userId entry \<in> set (blockedUsers user))
                   in if \<not> isBlockedByThem \<and> \<not> isBlockedByMe
                      then (case getSocket st (ou_socketId entry) of
                              None \<Rightarrow> st
                            | Some c \<Rightarrow>
                                socketEmit st c
                                  (if isOnline then UserOnline u name else UserOffline u name))
                      else st)))
       user u name isOnline entries"

definition notifyUserOnlineStatus :: "state \<Rightarrow> objectId \<Rightarrow> string \<Rightarrow> bool \<Rightarrow> state" where
  "notifyUserOnlineStatus st u name isOnline =
     (case findUser st u of
        None \<Rightarrow> st
      | Some user \<Rightarrow> notifyLoop st user u name isOnline (map snd (onlineUsers st)))"

text \<open>Lines 71-108: getFilteredOnlineUsers.\<close>

definition getFilteredOnlineUsers :: "state \<Rightarrow> objectId \<Rightarrow> onlineUser list \<Rightarrow> onlineUser list" where
  "getFilteredOnlineUsers st currentUserId allOnlineUsers =
     (case findUser st currentUserId of
        None \<Rightarrow> allOnlineUsers
      | Some currentUser \<Rightarrow>
          filter (\<lambda>entry.
              if ou_userId entry = currentUserId then True
              else (case findUser st (ou_userId entry) of
                      None \<Rightarrow> False
                    | Some otherUser \<Rightarrow>
                        \<not> (ou_userId entry \<in> set (blockedUsers currentUser))
                        \<and> \<not> (currentUserId \<in> set (blockedUsers otherUser))))
            allOnlineUsers)"

text \<open>
  Lines 829-847: a connection that passed the authentication middleware is added to
  \<open>io.sockets.sockets\<close> with no room joined, is written into the registry under its
  user id (replacing whatever entry that user had), is announced, and is sent the
  filtered snapshot.
\<close>

definition handleSocketConnection :: "state \<Rightarrow> socket \<Rightarrow> state" where
  "handleSocketConnection st s =
     (let st1 = st\<lparr>sockets := sockets st @ [s\<lparr>rooms := {}\<rparr>]\<rparr>;
          st2 = st1\<lparr>onlineUsers := mapSet (userId s)
                   \<lparr>ou_userId = userId s, ou_socketId = sock_id s,
                    ou_username = sock_username s\<rparr> (onlineUsers st1)\<rparr>;
          st3 = (if sock_username s \<noteq> []
                 then notifyUserOnlineStatus st2 (userId s) (sock_username s) True else st2)
      in socketEmit st3 s
           (OnlineUsers (getFilteredOnlineUsers st3 (userId s) (map snd (onlineUsers st3)))))"

text \<open>
  Lines 864-878: the \<open>disconnect\<close> listener. The socket has left
  \<open>io.sockets.sockets\<close>; the listener deletes the registry entry of the socket's user,
  whatever socket that entry names, forgets the user's tracked rooms and announces the
  user offline.
\<close>

definition handleDisconnect :: "state \<Rightarrow> socket \<Rightarrow> state" where
  "handleDisconnect st s =
     (let st1 = st\<lparr>sockets := filter (\<lambda>c. sock_id c \<noteq> sock_id s) (sockets st)\<rparr>;
          st2 = st1\<lparr>onlineUsers := mapDelete (userId s) (onlineUsers st1)\<rparr>;
          st3 = st2\<lparr>userRooms := (userRooms st2)(userId s := None)\<rparr>
      in if sock_username s \<noteq> []
         then notifyUserOnlineStatus st3 (userId s) (sock_username s) False else st3)"

section \<open>Rooms\<close>

text \<open>\<open>socket.join\<close> and \<open>socket.leave\<close> on the connected socket with the handler's id.\<close>

definition socketJoin :: "state \<Rightarrow> socket \<Rightarrow> room \<Rightarrow> state" where
  "socketJoin st s r =
     st\<lparr>sockets := map (\<lambda>c. if sock_id c = sock_id s then c\<lparr>rooms := insert r (rooms c)\<rparr> else c)
                       (sockets st)\<rparr>"

definition socketLeave :: "state \<Rightarrow> socket \<Rightarrow> room \<Rightarrow> state" where
  "socketLeave st s r =
     st\<lparr>sockets := map (\<lambda>c. if sock_id c = sock_id s then c\<lparr>rooms := rooms c - {r}\<rparr> else c)
                       (sockets st)\<rparr>"

definition handleJoinChat :: "state \<Rightarrow> socket \<Rightarrow> objectId \<Rightarrow> state" where
  "handleJoinChat st s other = socketJoin st s (chatRoom (userId s) other)"

definition handleLeaveChat :: "state \<Rightarrow> socket \<Rightarrow> objectId \<Rightarrow> state" where
  "handleLeaveChat st s other = socketLeave st s (chatRoom (userId s) other)"

definition handleJoinGroupChat :: "state \<Rightarrow> socket \<Rightarrow> objectId \<Rightarrow> state" where
  "handleJoinGroupChat st s g =
     (case findMemberGroup st g (userId s) of
        None \<Rightarrow>
          (case findRemovedGroup st g (userId s) of
             Some removedGroup \<Rightarrow> socketEmit st s (ErrorEvent ''You were removed from this group'')
           | None \<Rightarrow> socketEmit st s (ErrorEvent ''You are not a member of this group''))
      | Some grp \<Rightarrow>
          (let userRoomSet = (case userRooms st (userId s) of None \<Rightarrow> {} | Some rs \<Rightarrow> rs)
           in if GroupRoom g \<in> userRoomSet
              then st\<lparr>userRooms := (userRooms st)(userId s \<mapsto> userRoomSet)\<rparr>
              else (socketJoin st s (GroupRoom g))
                     \<lparr>userRooms := (userRooms st)(userId s \<mapsto> insert (GroupRoom g) userRoomSet)\<rparr>))"

definition handleLeaveGroupChat :: "state \<Rightarrow> socket \<Rightarrow> objectId \<Rightarrow> state" where
  "handleLeaveGroupChat st s g =
     (let st1 = socketLeave st s (GroupRoom g)
      in case userRooms st1 (userId s) of None \<Rightarrow> st1
         | Some rs \<Rightarrow> st1\<lparr>userRooms := (userRooms st1)(userId s \<mapsto> rs - {GroupRoom g})\<rparr>)"

section \<open>Group controller: the system messages\<close>

text \<open>
  The four controller functions of part_008 that store a message. Each narrates a group
  event with a \<open>system\<close> message whose \<open>group\<close> field is set. \<open>populate\<close> is taken to
  find the users it looks up, and \<open>group.save()\<close> on a group loaded from the store is
  taken to succeed; a new group is validated (name required and at most 50 characters
  after trimming, description at most 200).
\<close>

record createGroupBody =
  cg_name :: "string option"
  cg_description :: "string option"
  cg_memberIds :: "objectId list option"

definition groupValid :: "string \<Rightarrow> string option \<Rightarrow> bool" where
  "groupValid name description =
     (trim name \<noteq> [] \<and> length (trim name) \<le> 50 \<and>
      (case description of None \<Rightarrow> True | Some t \<Rightarrow> length (trim t) \<le> 200))"

definition newMember :: "objectId \<Rightarrow> role \<Rightarrow> time \<Rightarrow> member" where
  "newMember u r now =
     \<lparr>m_user = u, m_role = r, m_joinedAt = now, m_unreadCount = 0, m_lastReadAt = Some now\<rparr>"

definition systemLatest :: "message \<Rightarrow> string \<Rightarrow> latestMessage" where
  "systemLatest msg name =
     \<lparr>lm_messageId = mid msg, lm_text = msgText msg, lm_messageType = SystemType,
      lm_sender = sender msg, lm_senderUsername = name, lm_createdAt = createdAt msg\<rparr>"

text \<open>emitGroupCreated (socketService.ts, lines 31-44).\<close>

fun emitGroupCreated :: "state \<Rightarrow> objectId \<Rightarrow> member list \<Rightarrow> state" where
  "emitGroupCreated st g [] = st"
| "emitGroupCreated st g (m # ms) =
     emitGroupCreated
       (case findOnline st (m_user m) of None \<Rightarrow> st
        | Some onlineUser \<Rightarrow> ioTo st (ou_socketId onlineUser) (GroupCreated g))
       g ms"

definition createGroup :: "state \<Rightarrow> objectId \<Rightarrow> createGroupBody \<Rightarrow> time \<Rightarrow> response \<times> state" where
  "createGroup st caller b now =
     (case (cg_name b, cg_memberIds b) of
        (Some name, Some memberIds) \<Rightarrow>
          if name = [] then (Response 400 ''Group name and member IDs are required'', st)
          else if length (filter (\<lambda>d. uid d \<in> set memberIds) (users st)) \<noteq> length memberIds
            then (Response 400 ''Some member IDs are invalid'', st)
          else
            (case findUser st caller of
               None \<Rightarrow> (Response 404 ''User not found'', st)
             | Some currentUser \<Rightarrow>
                 (let blockedMembers = filter (\<lambda>i. i \<in> set (blockedUsers currentUser)) memberIds;
                      blockingMembers = filter (\<lambda>i. hasBlocked (findUser st i) caller) memberIds
                  in if blockedMembers \<noteq> [] \<or> blockingMembers \<noteq> []
                       then (Response 400 ''Cannot create group with blocked users'', st)
                     else if \<not> groupValid name (cg_description b)
                       then (Response 500 ''Internal server error'', st)
                     else
                       (case newObjectId st of (g, st1) \<Rightarrow>
                          (let grp = \<lparr>gid = g, g_name = trim name, g_createdBy = caller,
                                 members = newMember caller Admin now
                                             # map (\<lambda>i. newMember i Member now) memberIds,
                                 leftMembers = [], removedMembers = [],
                                 latestMessage = None, isActive = True\<rparr>;
                               st2 = st1\<lparr>groups := groups st1 @ [grp]\<rparr>
                           in case newObjectId st2 of (i, st3) \<Rightarrow>
                             (case saveNew st3
                                     ((newMessage i caller)\<lparr>groupRef := Some g,
                                        msgText := Some (''Group created by '' @ username currentUser),
                                        messageType := SystemType, isRead := False\<rparr>) now of
                                None \<Rightarrow> (Response 500 ''Internal server error'', st3)
                              | Some (msg, st4) \<Rightarrow>
                                  (let grp' = grp\<lparr>latestMessage :=
                                                  Some (systemLatest msg (username currentUser))\<rparr>;
                                       st5 = st4\<lparr>groups := replaceGroup grp' (groups st4)\<rparr>
                                   in (Response 201 ''Group created successfully'',
                                       emitGroupCreated st5 g (members grp'))))))))
      | _ \<Rightarrow> (Response 400 ''Group name and member IDs are required'', st))"

text \<open>
  \<open>Group.findOne({_id, 'members.user': userId, 'members.role': 'admin', isActive: true})\<close>:
  some member entry is the user's and some member entry is an admin's.
\<close>

definition findAdminGroup :: "state \<Rightarrow> objectId \<Rightarrow> objectId \<Rightarrow> groupDoc option" where
  "findAdminGroup st g u =
     find (\<lambda>d. gid d = g \<and> u \<in> set (map m_user (members d))
                \<and> Admin \<in> set (map m_role (members d)) \<and> isActive d) (groups st)"

fun joinNames :: "string list \<Rightarrow> string" where
  "joinNames [] = []"
| "joinNames [n] = n"
| "joinNames (n # ns) = n @ '', '' @ joinNames ns"

text \<open>\<open>leftMembers.findIndex\<close> and \<open>splice\<close> for each added id, in turn.\<close>

fun removeFirstLeft :: "objectId \<Rightarrow> leftMember list \<Rightarrow> leftMember list" where
  "removeFirstLeft u [] = []"
| "removeFirstLeft u (l # ls) = (if l_user l = u then ls else l # removeFirstLeft u ls)"

definition addMembersToGroup :: "state \<Rightarrow> objectId \<Rightarrow> objectId \<Rightarrow> objectId list \<Rightarrow> time \<Rightarrow> response \<times> state" where
  "addMembersToGroup st caller g memberIds now =
     (case findAdminGroup st g caller of
        None \<Rightarrow> (Response 404 ''Group not found or insufficient permissions'', st)
      | Some grp \<Rightarrow>
          (let validMembers = filter (\<lambda>d. uid d \<in> set memberIds) (users st)
           in if length validMembers \<noteq> length memberIds
                then (Response 400 ''Some member IDs are invalid'', st)
              else
                (case findUser st caller of
                   None \<Rightarrow> (Response 404 ''User not found'', st)
                 | Some currentUser \<Rightarrow>
                     (let inGroup = (\<lambda>i. i \<in> set (map m_user (members grp)));
                          alreadyInGroupMembers = filter inGroup memberIds;
                          blockedMembers = filter (\<lambda>i. \<not> inGroup i \<and> i \<in> set (blockedUsers currentUser))
                                             memberIds;
                          blockingMembers = filter (\<lambda>i. \<not> inGroup i \<and> hasBlocked (findUser st i) caller)
                                              memberIds
                      in if blockedMembers \<noteq> [] \<or> blockingMembers \<noteq> [] \<or> alreadyInGroupMembers \<noteq> []
                           then (Response 400
                                   ''Cannot add blocked users, users who blocked you, or users already in group'',
                                 st)
                         else
                           (let grp1 = grp\<lparr>leftMembers := fold removeFirstLeft memberIds (leftMembers grp),
                                           members := members grp
                                             @ map (\<lambda>i. newMember i Member now) memberIds\<rparr>;
                                st1 = st\<lparr>groups := replaceGroup grp1 (groups st)\<rparr>
                            in case newObjectId st1 of (i, st2) \<Rightarrow>
                              (case saveNew st2
                                      ((newMessage i caller)\<lparr>groupRef := Some g,
                                         msgText := Some (joinNames (map username validMembers)
                                            @ (if length memberIds = 1 then '' was'' else '' were'')
                                            @ '' added to the group''),
                                         messageType := SystemType\<rparr>) now of
                                 None \<Rightarrow> (Response 500 ''Internal server error'', st2)
                               | Some (msg, st3) \<Rightarrow>
                                   (let name = (if username currentUser \<noteq> [] then username currentUser
                                                else ''System'');
                                        grp2 = grp1\<lparr>latestMessage := Some (systemLatest msg name)\<rparr>
                                    in (Response 200 ''Members added successfully'',
                                        st3\<lparr>groups := replaceGroup grp2 (groups st3)\<rparr>))))))))"

text \<open>removeUserFromGroupRoom (socketService.ts, lines 47-68).\<close>

definition leaveRoomById :: "state \<Rightarrow> socketId \<Rightarrow> room \<Rightarrow> state" where
  "leaveRoomById st c r =
     st\<lparr>sockets := map (\<lambda>x. if sock_id x = c then x\<lparr>rooms := rooms x - {r}\<rparr> else x) (sockets st)\<rparr>"

definition removeUserFromGroupRoom :: "state \<Rightarrow> objectId \<Rightarrow> objectId \<Rightarrow> state" where
  "removeUserFromGroupRoom st u g =
     (case findOnline st u of
        None \<Rightarrow> st
      | Some onlineUser \<Rightarrow>
          (case getSocket st (ou_socketId onlineUser) of
             None \<Rightarrow> st
           | Some c \<Rightarrow>
               (let st1 = leaveRoomById st (sock_id c) (GroupRoom g);
                    st2 = (case userRooms st1 u of None \<Rightarrow> st1
                           | Some rs \<Rightarrow> st1\<lparr>userRooms := (userRooms st1)(u \<mapsto> rs - {GroupRoom g})\<rparr>)
                in socketEmit st2 c (ErrorEvent ''You were removed from this group''))))"

fun emitMemberRemoved :: "state \<Rightarrow> objectId \<Rightarrow> message \<Rightarrow> member list \<Rightarrow> state" where
  "emitMemberRemoved st g msg [] = st"
| "emitMemberRemoved st g msg (m # ms) =
     emitMemberRemoved
       (case findOnline st (m_user m) of None \<Rightarrow> st
        | Some onlineUser \<Rightarrow>
            ioTo st (ou_socketId onlineUser) (GroupMemberRemoved g (m_user m) msg))
       g msg ms"

fun removeFirstMember :: "objectId \<Rightarrow> member list \<Rightarrow> member list" where
  "removeFirstMember u [] = []"
| "removeFirstMember u (m # ms) = (if m_user m = u then ms else m # removeFirstMember u ms)"

definition removeMemberFromGroup :: "state \<Rightarrow> objectId \<Rightarrow> string \<Rightarrow> objectId \<Rightarrow> objectId \<Rightarrow> time \<Rightarrow> response \<times> state" where
  "removeMemberFromGroup st caller callerName g memberId now =
     (case findAdminGroup st g caller of
        None \<Rightarrow> (Response 404 ''Group not found or insufficient permissions'', st)
      | Some grp \<Rightarrow>
          if memberId \<notin> set (map m_user (members grp))
            then (Response 404 ''Member not found in group'', st)
          else
            (let removedMemberUsername = (case findUser st memberId of None \<Rightarrow> []
                                          | Some d \<Rightarrow> username d);
                 grp1 = grp\<lparr>members := removeFirstMember memberId (members grp),
                            removedMembers := removedMembers grp
                              @ [\<lparr>r_user = memberId, r_removedAt = now, r_removedBy = caller\<rparr>]\<rparr>;
                 st1 = st\<lparr>groups := replaceGroup grp1 (groups st)\<rparr>
             in case newObjectId st1 of (i, st2) \<Rightarrow>
               (case saveNew st2
                       ((newMessage i caller)\<lparr>groupRef := Some g,
                          msgText := Some (removedMemberUsername @ '' was removed from this group''),
                          messageType := SystemType, removedMemberId := Some memberId\<rparr>) now of
                  None \<Rightarrow> (Response 500 ''Internal server error'', st2)
                | Some (msg, st3) \<Rightarrow>
                    (let grp2 = grp1\<lparr>latestMessage := Some (systemLatest msg callerName)\<rparr>;
                         st4 = st3\<lparr>groups := replaceGroup grp2 (groups st3)\<rparr>;
                         st5 = (case findOnline st4 memberId of None \<Rightarrow> st4
                                | Some removedMemberSocket \<Rightarrow>
                                    ioTo (leaveRoomById st4 (ou_socketId removedMemberSocket) (GroupRoom g))
                                      (ou_socketId removedMemberSocket)
                                      (MemberRemovedFromGroup g msg));
                         st6 = removeUserFromGroupRoom st5 memberId g
                     in (Response 200 [], emitMemberRemoved st6 g msg (members grp2))))))"

definition leaveGroup :: "state \<Rightarrow> objectId \<Rightarrow> objectId \<Rightarrow> time \<Rightarrow> response \<times> state" where
  "leaveGroup st caller g now =
     (case findMemberGroup st g caller of
        None \<Rightarrow> (Response 404 ''Group not found'', st)
      | Some grp \<Rightarrow>
          if g_createdBy grp = caller
            then (Response 400 ''Group creator cannot leave the group'', st)
          else
            (let grp1 = grp\<lparr>members := filter (\<lambda>m. m_user m \<noteq> caller) (members grp),
                            leftMembers := leftMembers grp @ [\<lparr>l_user = caller, l_leftAt = now\<rparr>]\<rparr>;
                 st1 = st\<lparr>groups := replaceGroup grp1 (groups st)\<rparr>
             in case findUser st1 caller of
                  None \<Rightarrow> (Response 200 ''Left group successfully'', st1)
                | Some leavingUser \<Rightarrow>
                    (case newObjectId st1 of (i, st2) \<Rightarrow>
                       (case saveNew st2
                               ((newMessage i caller)\<lparr>groupRef := Some g,
                                  msgText := Some (username leavingUser @ '' left the group''),
                                  messageType := SystemType, isRead := False\<rparr>) now of
                          None \<Rightarrow> (Response 500 ''Internal server error'', st2)
                        | Some (msg, st3) \<Rightarrow>
                            (let grp2 = grp1\<lparr>latestMessage :=
                                              Some (systemLatest msg (username leavingUser))\<rparr>;
                                 st4 = st3\<lparr>groups := replaceGroup grp2 (groups st3)\<rparr>
                             in (Response 200 ''Left group successfully'',
                                 ioToRoom st4 (GroupRoom g) (GroupMemberLeft g caller msg)))))))"

section \<open>The operations on the server state\<close>

text \<open>
  Every socket event and every HTTP route modelled above, as one step on the state. The
  handlers are taken to run one at a time, each to completion.
\<close>

datatype operation =
    SocketSend socket sendData time
  | HttpSend objectId sendBody time
  | SocketGroupSend socket groupSendData time
  | CreateGroup objectId createGroupBody time
  | AddMembers objectId objectId "objectId list" time
  | RemoveMember objectId string objectId objectId time
  | LeaveGroup objectId objectId time
  | SocketEdit socket objectId string time
  | HttpEdit objectId objectId "string option" time
  | SocketDeleteForMe socket objectId time
  | HttpDeleteForMe objectId objectId time
  | SocketDeleteForEveryone socket objectId time
  | HttpDeleteForEveryone objectId objectId time
  | SocketMarkRead socket objectId time
  | HttpMarkRead objectId objectId time
  | SocketMarkGroupRead socket objectId time
  | HttpMarkGroupRead objectId objectId time
  | Connect socket
  | Disconnect socket
  | JoinChat socket objectId
  | LeaveChat socket objectId
  | JoinGroupChat socket objectId
  | LeaveGroupChat socket objectId

fun exec :: "state \<Rightarrow> operation \<Rightarrow> state" where
  "exec st (SocketSend s d now) = handleSendMessage st s d now"
| "exec st (HttpSend u b now) = snd (sendMessage st u b now)"
| "exec st (SocketGroupSend s d now) = handleSendGroupMessage st s d now"
| "exec st (CreateGroup u b now) = snd (createGroup st u b now)"
| "exec st (AddMembers u g ids now) = snd (addMembersToGroup st u g ids now)"
| "exec st (RemoveMember u name g m now) = snd (removeMemberFromGroup st u name g m now)"
| "exec st (LeaveGroup u g now) = snd (leaveGroup st u g now)"
| "exec st (SocketEdit s i t now) = handleEditMessage st s i t now"
| "exec st (HttpEdit u i t now) = snd (editMessage st u i t now)"
| "exec st (SocketDeleteForMe s i now) = handleDeleteMessageForMe st s i now"
| "exec st (HttpDeleteForMe u i now) = snd (deleteMessageForMe st u i now)"
| "exec st (SocketDeleteForEveryone s i now) = handleDeleteMessageForEveryone st s i now"
| "exec st (HttpDeleteForEveryone u i now) = snd (deleteMessageForEveryone st u i now)"
| "exec st (SocketMarkRead s u now) = handleMarkMessagesAsRead st s u now"
| "exec st (HttpMarkRead u v now) = snd (markMessagesAsRead st u v now)"
| "exec st (SocketMarkGroupRead s g now) = handleMarkGroupMessagesAsRead st s g now"
| "exec st (HttpMarkGroupRead u g now) = snd (markGroupMessagesAsRead st u g now)"
| "exec st (Connect s) = handleSocketConnection st s"
| "exec st (Disconnect s) = handleDisconnect st s"
| "exec st (JoinChat s u) = handleJoinChat st s u"
| "exec st (LeaveChat s u) = handleLeaveChat st s u"
| "exec st (JoinGroupChat s g) = handleJoinGroupChat st s g"
| "exec st (LeaveGroupChat s g) = handleLeaveGroupChat st s g"


section \<open>Vocabulary for the properties\<close>

text \<open>
  The definitions of this section are not handlers of the program: they name what the
  properties below talk about.
\<close>


text \<open>The connected socket that the registry records for a user, if any.\<close>

definition liveSocketOf :: "state \<Rightarrow> objectId \<Rightarrow> socketId option" where
  "liveSocketOf st u =
     (case findOnline st u of None \<Rightarrow> None
      | Some entry \<Rightarrow> (case getSocket st (ou_socketId entry) of None \<Rightarrow> None
                       | Some c \<Rightarrow> Some (ou_socketId entry)))"


text \<open>The live registered connections of a list of members, in member order.\<close>

definition groupRecipients :: "state \<Rightarrow> member list \<Rightarrow> socketId list" where
  "groupRecipients st ms = List.map_filter (\<lambda>m. liveSocketOf st (m_user m)) ms"


definition sentGroup :: "state \<Rightarrow> socket \<Rightarrow> groupSendData \<Rightarrow> time \<Rightarrow> message" where
  "sentGroup st s d now =
     (newMessage (nextObjectId st) (userId s))\<lparr>groupRef := Some (groupId d),
        msgText := gs_text d, imageUrl := gs_imageData d, videoUrl := gs_videoData d,
        messageType := (case gs_messageType d of None \<Rightarrow> TextType | Some x \<Rightarrow> x),
        isRead := False, createdAt := now, updatedAt := now\<rparr>"




text \<open>A connection was sent a \<open>newMessage\<close> event.\<close>

definition isNewMessage :: "event \<Rightarrow> bool" where
  "isNewMessage e = (case e of NewMessage m \<Rightarrow> True | _ \<Rightarrow> False)"

definition receivedNewMessage :: "state \<Rightarrow> socketId \<Rightarrow> bool" where
  "receivedNewMessage st c = list_ex (\<lambda>d. fst d = c \<and> isNewMessage (snd d)) (outbox st)"








text \<open>
  The unread count in the claim's words: a message is individually deleted for a member
  when the member is in \<open>deletedForUsers\<close>, or is the sender and \<open>deletedForSender\<close> is
  set; it counts as unread for a member with read marker \<open>t\<close> when it belongs to the
  group, was created strictly after \<open>t\<close>, was sent by somebody else and is not
  individually deleted for the member.
\<close>

definition deletedForMember :: "objectId \<Rightarrow> message \<Rightarrow> bool" where
  "deletedForMember u m = (u \<in> set (deletedForUsers m) \<or> (sender m = u \<and> deletedForSender m))"

definition countsAsUnread :: "objectId \<Rightarrow> objectId \<Rightarrow> time \<Rightarrow> message \<Rightarrow> bool" where
  "countsAsUnread g u t m =
     (groupRef m = Some g \<and> t < createdAt m \<and> sender m \<noteq> u \<and> \<not> deletedForMember u m)"


text \<open>
  Who is told that user \<open>u\<close> went online or offline: the live sockets of the registry
  entries of other users, where neither side has blocked the other.
\<close>

definition notified :: "state \<Rightarrow> userDoc \<Rightarrow> objectId \<Rightarrow> onlineUser \<Rightarrow> bool" where
  "notified st user u entry =
     (ou_userId entry \<noteq> u \<and>
      (case findUser st (ou_userId entry) of None \<Rightarrow> False
       | Some otherUser \<Rightarrow> u \<notin> set (blockedUsers otherUser)
                           \<and> ou_userId entry \<notin> set (blockedUsers user)) \<and>
      getSocket st (ou_socketId entry) \<noteq> None)"

definition audience :: "state \<Rightarrow> userDoc \<Rightarrow> objectId \<Rightarrow> socketId list" where
  "audience st user u = map ou_socketId (filter (notified st user u) (map snd (onlineUsers st)))"


text \<open>
  The mutual-exclusivity invariant of the message store: exactly one of the receiver and
  the group field is set.
\<close>

definition exactlyOneTarget :: "message \<Rightarrow> bool" where
  "exactlyOneTarget m = ((receiver m \<noteq> None) \<noteq> (groupRef m \<noteq> None))"

definition storeOk :: "state \<Rightarrow> bool" where
  "storeOk st = list_all exactlyOneTarget (messages st)"


section \<open>Scenarios\<close>

text \<open>
  Three users and their connections. Bob has blocked Alice; Carol has blocked nobody
  and nobody has blocked her. Bob's connection has the Alice-Bob and the Bob-Carol chat
  rooms open.
\<close>

definition alice :: userDoc where
  "alice = \<lparr>uid = 1, username = ''alice'', blockedUsers = []\<rparr>"

definition bob :: userDoc where
  "bob = \<lparr>uid = 2, username = ''bob'', blockedUsers = [1]\<rparr>"

definition carol :: userDoc where
  "carol = \<lparr>uid = 3, username = ''carol'', blockedUsers = []\<rparr>"

definition aliceSocket :: socket where
  "aliceSocket = \<lparr>sock_id = 10, userId = 1, sock_username = ''alice'', rooms = {}\<rparr>"

definition bobSocket :: socket where
  "bobSocket = \<lparr>sock_id = 20, userId = 2, sock_username = ''bob'',
                 rooms = {ChatRoom 1 2, ChatRoom 2 3}\<rparr>"

definition carolSocket :: socket where
  "carolSocket = \<lparr>sock_id = 30, userId = 3, sock_username = ''carol'', rooms = {}\<rparr>"

definition online :: "socket \<Rightarrow> objectId \<times> onlineUser" where
  "online s = (userId s, \<lparr>ou_userId = userId s, ou_socketId = sock_id s,
                           ou_username = sock_username s\<rparr>)"

definition chatState :: state where
  "chatState = \<lparr>messages = [], groups = [], users = [alice, bob, carol],
     nextObjectId = 100,
     onlineUsers = [online aliceSocket, online bobSocket, online carolSocket],
     sockets = [aliceSocket, bobSocket, carolSocket], userRooms = Map.empty, outbox = []\<rparr>"

definition hiTo :: "objectId \<Rightarrow> sendData" where
  "hiTo r = \<lparr>receiverId = r, sd_text = Some ''hi'', imageData = None, videoData = None,
             sd_messageType = Some TextType\<rparr>"


text \<open>A group of the three, created by Alice, and a message for it.\<close>

definition memberOf :: "objectId \<Rightarrow> role \<Rightarrow> member" where
  "memberOf u r = \<lparr>m_user = u, m_role = r, m_joinedAt = 0, m_unreadCount = 0,
                   m_lastReadAt = Some 0\<rparr>"

definition team :: groupDoc where
  "team = \<lparr>gid = 7, g_name = ''team'', g_createdBy = 1,
           members = [memberOf 1 Admin, memberOf 2 Member, memberOf 3 Member],
           leftMembers = [], removedMembers = [], latestMessage = None, isActive = True\<rparr>"

definition teamState :: state where
  "teamState = chatState\<lparr>groups := [team]\<rparr>"

definition hiTeam :: groupSendData where
  "hiTeam = \<lparr>groupId = 7, gs_text = Some ''hi'', gs_imageData = None, gs_videoData = None,
             gs_messageType = Some TextType\<rparr>"

text \<open>A store with one message, ``hello'' from Carol to Alice, created at time 0.\<close>

definition hello :: message where
  "hello = (newMessage 50 3)\<lparr>receiver := Some 1, msgText := Some ''hello''\<rparr>"

definition storeState :: state where
  "storeState = chatState\<lparr>messages := [hello]\<rparr>"



text \<open>
  Five messages in the team's room: one from Bob, one of Alice's own, one from Carol
  that Alice deleted for herself, one from Bob deleted for everyone, and one from Bob
  created at the very time of Alice's read marker.
\<close>

definition teamMessage :: "objectId \<Rightarrow> objectId \<Rightarrow> time \<Rightarrow> message" where
  "teamMessage i s t = (newMessage i s)\<lparr>groupRef := Some 7, msgText := Some ''news'', createdAt := t\<rparr>"

definition teamStore :: state where
  "teamStore = teamState\<lparr>messages :=
     [teamMessage 60 2 5, teamMessage 61 1 6, (teamMessage 62 3 7)\<lparr>deletedForUsers := [1]\<rparr>,
      tombstoned (teamMessage 63 2 8) 9, teamMessage 64 2 0]\<rparr>"


text \<open>
  Carol is online alone. Alice connects on socket 10 and then, without the first
  connection having closed, connects again on socket 11.
\<close>

definition aliceSocket2 :: socket where
  "aliceSocket2 = \<lparr>sock_id = 11, userId = 1, sock_username = ''alice'', rooms = {}\<rparr>"

definition lobby :: state where
  "lobby = chatState\<lparr>onlineUsers := [online carolSocket], sockets := [carolSocket]\<rparr>"

definition reconnected :: state where
  "reconnected = handleSocketConnection (handleSocketConnection lobby aliceSocket) aliceSocket2"


text \<open>
  A short history on the team's state: Carol writes to Alice, Alice writes to the team,
  Carol edits her message, Alice deletes it for herself, Alice deletes her own group
  message for everyone, and Alice marks Carol's messages read.
\<close>

definition history :: "operation list" where
  "history =
     [SocketSend carolSocket (hiTo 1) 0,
      SocketGroupSend aliceSocket hiTeam 10,
      SocketEdit carolSocket 100 ''hey'' 20,
      SocketDeleteForMe aliceSocket 100 30,
      SocketDeleteForEveryone aliceSocket 101 40,
      SocketMarkRead aliceSocket 3 50]"


section \<open>What a send delivers\<close>

lemma findOnline_update [simp]:
  "findOnline (st\<lparr>outbox := ob\<rparr>) = findOnline st"
  "findOnline (st\<lparr>messages := ms\<rparr>) = findOnline st"
  "findOnline (st\<lparr>nextObjectId := n\<rparr>) = findOnline st"
  "findOnline (st\<lparr>groups := gs\<rparr>) = findOnline st"
  by (simp_all add: findOnline_def fun_eq_iff)

lemma getSocket_update [simp]:
  "getSocket (st\<lparr>outbox := ob\<rparr>) = getSocket st"
  "getSocket (st\<lparr>messages := ms\<rparr>) = getSocket st"
  "getSocket (st\<lparr>nextObjectId := n\<rparr>) = getSocket st"
  "getSocket (st\<lparr>groups := gs\<rparr>) = getSocket st"
  by (simp_all add: getSocket_def fun_eq_iff)

lemma liveSocketOf_update [simp]:
  "liveSocketOf (st\<lparr>outbox := ob\<rparr>) = liveSocketOf st"
  "liveSocketOf (st\<lparr>groups := gs\<rparr>) = liveSocketOf st"
  "liveSocketOf (st\<lparr>messages := ms\<rparr>) = liveSocketOf st"
  "liveSocketOf (st\<lparr>nextObjectId := n\<rparr>) = liveSocketOf st"
  by (simp_all add: liveSocketOf_def fun_eq_iff split: option.splits)

lemma ioTo_outbox:
  "ioTo st c e =
     st\<lparr>outbox := outbox st @ (case getSocket st c of None \<Rightarrow> [] | Some x \<Rightarrow> [(c, e)])\<rparr>"
  by (simp add: ioTo_def split: option.splits)




lemma groupRecipients_outbox [simp]:
  "groupRecipients (st\<lparr>outbox := ob\<rparr>) ms = groupRecipients st ms"
  by (simp add: groupRecipients_def)

lemma groupRecipients_Cons:
  "groupRecipients st (m # ms) =
     (case liveSocketOf st (m_user m) of None \<Rightarrow> [] | Some c \<Rightarrow> [c]) @ groupRecipients st ms"
  by (simp add: groupRecipients_def List.map_filter_simps split: option.splits)

lemma fanOutNewMessage_outbox:
  "fanOutNewMessage st msg ms =
     st\<lparr>outbox := outbox st @ map (\<lambda>c. (c, NewMessage msg)) (groupRecipients st ms)\<rparr>"
proof (induction ms arbitrary: st)
  case Nil
  show ?case by (simp add: groupRecipients_def List.map_filter_simps)
next
  case (Cons m ms)
  show ?case
    by (simp add: Cons.IH groupRecipients_Cons ioTo_outbox liveSocketOf_def
          split: option.splits)
qed

lemma handleSendGroupMessage_sent:
  assumes "findMemberGroup st (groupId d) (userId s) = Some g"
    and "findUser st (userId s) \<noteq> None"
    and "textValid (sentGroup st s d now)"
  shows "messages (handleSendGroupMessage st s d now) = messages st @ [sentGroup st s d now] \<and>
     outbox (handleSendGroupMessage st s d now) =
       outbox st @ map (\<lambda>c. (c, NewMessage (sentGroup st s d now))) (groupRecipients st (members g))
         @ [(sock_id s, MessageSent (sentGroup st s d now))]"
proof -
  have tv: "textValid ((newMessage (nextObjectId st) (userId s))\<lparr>groupRef := Some (groupId d),
        msgText := gs_text d, imageUrl := gs_imageData d, videoUrl := gs_videoData d,
        messageType := (case gs_messageType d of None \<Rightarrow> TextType | Some x \<Rightarrow> x),
        isRead := False\<rparr>)"
    using assms(3) by (simp add: sentGroup_def textValid_def)
  have pv: "preValidate ((newMessage (nextObjectId st) (userId s))\<lparr>groupRef := Some (groupId d),
        msgText := gs_text d, imageUrl := gs_imageData d, videoUrl := gs_videoData d,
        messageType := (case gs_messageType d of None \<Rightarrow> TextType | Some x \<Rightarrow> x),
        isRead := False\<rparr>)"
    by (simp add: preValidate_def newMessage_def)
  show ?thesis
    using assms(1,2) tv pv
    by (auto simp add: handleSendGroupMessage_def newObjectId_def saveNew_def socketEmit_def
          fanOutNewMessage_outbox sentGroup_def groupRecipients_def Let_def split: option.splits)
qed

lemmas chat_scenario_defs =
  chatState_def alice_def bob_def carol_def aliceSocket_def bobSocket_def carolSocket_def
  online_def hiTo_def findUser_def hasBlocked_def

lemmas team_scenario_defs =
  teamState_def team_def memberOf_def hiTeam_def findMemberGroup_def

section \<open>Edits and tombstones on the store\<close>

lemma messages_emit [simp]:
  "messages (socketEmit st s e) = messages st"
  "messages (ioTo st c e) = messages st"
  "messages (ioToRoom st r e) = messages st"
  by (simp_all add: socketEmit_def ioTo_def ioToRoom_def split: option.splits)




lemma edited_fields [simp]:
  "preValidate (edited m t now) = preValidate m"
  "textValid (edited m t now) = (length (trim t) \<le> 1000)"
  "preValidate (m\<lparr>updatedAt := x\<rparr>) = preValidate m"
  by (simp_all add: edited_def preValidate_def textValid_def)











lemma tombstoned_valid [simp]:
  "preValidate (tombstoned m now) = preValidate m"
  "textValid (tombstoned m now)"
  by (simp_all add: tombstoned_def preValidate_def textValid_def tombstone_def)

lemma saveExisting_tombstoned:
  assumes "preValidate m"
  shows "saveExisting st (tombstoned m now) b now =
     Some ((tombstoned m now)\<lparr>updatedAt := now\<rparr>,
           st\<lparr>messages := replaceById ((tombstoned m now)\<lparr>updatedAt := now\<rparr>) (messages st)\<rparr>)"
  using assms by (simp add: saveExisting_def Let_def)

lemma messages_groups_update [simp]:
  "messages (st\<lparr>groups := gs\<rparr>) = messages st"
  by simp

lemma group_delete_for_everyone_store:
  assumes "preValidate m"
  shows "messages (handleGroupMessageDeleteForEveryone st s m now) =
     replaceById ((tombstoned m now)\<lparr>updatedAt := now\<rparr>) (messages st)"
  using assms
  by (simp add: handleGroupMessageDeleteForEveryone_def saveExisting_tombstoned
        split: option.splits)

lemma normal_delete_for_everyone_store:
  assumes "preValidate m"
  shows "messages (handleNormalMessageDeleteForEveryone st s m now) =
     replaceById ((tombstoned m now)\<lparr>updatedAt := now\<rparr>) (messages st)"
  using assms
  by (simp add: handleNormalMessageDeleteForEveryone_def saveExisting_tombstoned Let_def
        split: option.splits)

lemma socket_delete_for_everyone_store:
  assumes "findOwnMessage st i (userId s) = Some m"
    and "now - createdAt m \<le> twelveHoursInMs"
    and "preValidate m"
  shows "messages (handleDeleteMessageForEveryone st s i now) =
     replaceById (m\<lparr>msgText := Some ''This message was deleted'', deletedForEveryone := True,
                    deletedAt := Some now, isEdited := True, updatedAt := now\<rparr>) (messages st)"
  using assms
  by (simp add: handleDeleteMessageForEveryone_def group_delete_for_everyone_store
        normal_delete_for_everyone_store tombstoned_def tombstone_def)


section \<open>Delete for me on the store\<close>







lemma direct_valid:
  "groupRef m = None \<Longrightarrow> receiver m = Some b \<Longrightarrow> preValidate m"
  by (simp add: preValidate_def)







lemma http_delete_for_me_direct:
  assumes "findMessageById st i = Some m" "groupRef m = None"
  shows "messages (snd (deleteMessageForMe st (userId s) i now)) =
           messages (handleDeleteMessageForMe st s i now)"
  using assms
  by (auto simp add: deleteMessageForMe_def handleDeleteMessageForMe_def
        handleNormalMessageDeleteForMe_def Let_def split: option.splits)

section \<open>Blocked direct sends\<close>

text \<open>
  The HTTP controller stops at the same two guards with a 403 and stores nothing.
\<close>

lemma http_blocked_send_refused:
  assumes "b_receiverId b = Some r"
    and "hasBlocked (findUser st r) u \<or> hasBlocked (findUser st u) r"
  shows "snd (sendMessage st u b now) = st"
  using assms
  by (auto simp add: sendMessage_def hasBlocked_def Let_def split: option.splits)




section \<open>Read state at send time\<close>




section \<open>Order of the fan-out\<close>





section \<open>Group fan-out and blocking\<close>

text \<open>
  What a group send delivers, for reference: \<open>newMessage\<close> goes to the live registered
  connection of every entry of \<open>group.members\<close>; the two block lists that the handler
  collects (\<open>blockedMembersOf\<close>, \<open>blockingMembersOf\<close>) do not enter the loop.
\<close>

lemma group_send_recipients:
  assumes "findMemberGroup st (groupId d) (userId s) = Some g"
    and "findUser st (userId s) \<noteq> None"
    and "textValid (sentGroup st s d now)"
    and "outbox st = []"
  shows "receivedNewMessage (handleSendGroupMessage st s d now) c
           \<longleftrightarrow> c \<in> set (groupRecipients st (members g))"
  using handleSendGroupMessage_sent [OF assms(1-3)] assms(4)
  by (auto simp add: receivedNewMessage_def list_ex_iff isNewMessage_def)

text \<open>
  C5 (the code at an input where it departs from the claim): Bob has blocked Alice, both
  are active members of the team and both are online. The handler finds Bob among the
  members who have blocked the sender, and Bob's connection is sent Alice's
  \<open>newMessage\<close> all the same.
\<close>

theorem group_send_reaches_blocking_member:
  "findMemberGroup teamState (groupId hiTeam) (userId aliceSocket) = Some team \<and>
   blockingMembersOf teamState (userId aliceSocket) team = [2] \<and>
   liveSocketOf teamState 2 = Some 20 \<and>
   receivedNewMessage (handleSendGroupMessage teamState aliceSocket hiTeam 1000) 20"
proof -
  have grp: "findMemberGroup teamState (groupId hiTeam) (userId aliceSocket) = Some team"
    by (simp add: team_scenario_defs chatState_def aliceSocket_def)
  have usr: "findUser teamState (userId aliceSocket) \<noteq> None"
    by (simp add: teamState_def chat_scenario_defs)
  have fits: "textValid (sentGroup teamState aliceSocket hiTeam 1000)"
    by (simp add: textValid_def sentGroup_def newMessage_def hiTeam_def)
  have blocking: "blockingMembersOf teamState (userId aliceSocket) team = [2]"
    by (simp add: blockingMembersOf_def team_def memberOf_def teamState_def chat_scenario_defs)
  have live: "liveSocketOf teamState 2 = Some 20"
    by (simp add: teamState_def liveSocketOf_def findOnline_def getSocket_def
          chat_scenario_defs)
  have rcp: "groupRecipients teamState (members team) = [10, 20, 30]"
    by (simp add: groupRecipients_def List.map_filter_simps teamState_def liveSocketOf_def
          findOnline_def getSocket_def chat_scenario_defs team_def memberOf_def)
  have "receivedNewMessage (handleSendGroupMessage teamState aliceSocket hiTeam 1000) 20"
    using handleSendGroupMessage_sent [OF grp usr fits] rcp
    by (simp add: receivedNewMessage_def isNewMessage_def)
  with grp blocking live show ?thesis by simp
qed

section \<open>Delete for everyone\<close>

text \<open>
  C2 (the code at an input where it departs from the claim): Carol deletes her message
  to Alice for everyone through the HTTP controller, within the twelve hours. The
  controller answers 200 and sets \<open>deletedForEveryone\<close> and \<open>deletedAt\<close>, but the
  stored text is still ``hello'' and \<open>isEdited\<close> is still false. The socket handlers
  do write the tombstone (\<open>socket_delete_for_everyone_store\<close>).
\<close>

theorem http_delete_for_everyone_keeps_text:
  "findOwnMessage storeState 50 3 = Some hello \<and>
   1000 - createdAt hello \<le> twelveHoursInMs \<and>
   fst (deleteMessageForEveryone storeState 3 50 1000)
     = Response 200 ''Message deleted for everyone'' \<and>
   map deletedForEveryone (messages (snd (deleteMessageForEveryone storeState 3 50 1000)))
     = [True] \<and>
   map deletedAt (messages (snd (deleteMessageForEveryone storeState 3 50 1000)))
     = [Some 1000] \<and>
   map msgText (messages (snd (deleteMessageForEveryone storeState 3 50 1000)))
     = [Some ''hello''] \<and>
   map isEdited (messages (snd (deleteMessageForEveryone storeState 3 50 1000))) = [False]"
  by (simp add: deleteMessageForEveryone_def findOwnMessage_def storeState_def chatState_def
        hello_def newMessage_def twelveHoursInMs_def saveExisting_def preValidate_def Let_def)

section \<open>Editing\<close>




section \<open>Delete for me on a direct message\<close>





section \<open>Group unread count\<close>

lemma unreadFilter_spec: "unreadFilter g u t = countsAsUnread g u t"
  by (auto simp add: unreadFilter_def countsAsUnread_def deletedForMember_def fun_eq_iff)

text \<open>
  C3: for every group and every current member of it whose entry carries a read marker,
  the unread count computed for the member is the number of messages of the group
  created strictly after the marker, not sent by the member and not individually deleted
  for the member; deleting a message for everyone changes nothing in whether it is
  counted; and the request that lists the user's groups reports that count for every
  active group.
\<close>

theorem group_unread_count:
  assumes "find (\<lambda>x. m_user x = u) (members g) = Some mem" and "m_lastReadAt mem = Some t"
  shows "unreadCount st u g = length (filter (countsAsUnread (gid g) u t) (messages st)) \<and>
     countsAsUnread (gid g) u t (tombstoned m now) = countsAsUnread (gid g) u t m \<and>
     countsAsUnread (gid g) u t (m\<lparr>deletedForEveryone := True\<rparr>) = countsAsUnread (gid g) u t m \<and>
     (g \<in> set (groups st) \<and> isActive g \<longrightarrow>
        (gid g, unreadCount st u g) \<in> set (getUserGroups st u))"
proof -
  have count: "unreadCount st u g = length (filter (countsAsUnread (gid g) u t) (messages st))"
    using assms by (simp add: unreadCount_def unreadFilter_spec)
  have member: "u \<in> set (map m_user (members g))"
    using assms(1) by (auto simp: find_Some_iff)
  have listed: "g \<in> set (groups st) \<and> isActive g \<longrightarrow>
        (gid g, unreadCount st u g) \<in> set (getUserGroups st u)"
    using member by (auto simp add: getUserGroups_def image_iff)
  show ?thesis
    using count listed
    by (simp add: countsAsUnread_def deletedForMember_def tombstoned_def)
qed

text \<open>Alice's unread count in the team: Bob's first message and Bob's tombstone.\<close>

theorem group_unread_count_witness:
  "find (\<lambda>x. m_user x = 1) (members team) = Some (memberOf 1 Admin) \<and>
   m_lastReadAt (memberOf 1 Admin) = Some 0 \<and>
   team \<in> set (groups teamStore) \<and> isActive team \<and>
   unreadCount teamStore 1 team = 2 \<and>
   map mid (filter (countsAsUnread 7 1 0) (messages teamStore)) = [60, 63] \<and>
   getUserGroups teamStore 1 = [(7, 2)]"
proof -
  have mem: "find (\<lambda>x. m_user x = 1) (members team) = Some (memberOf 1 Admin)"
    by (simp add: team_def memberOf_def)
  have last: "m_lastReadAt (memberOf 1 Admin) = Some 0"
    by (simp add: memberOf_def)
  have grp: "groups teamStore = [team]" "isActive team" "gid team = 7"
    by (simp_all add: teamStore_def teamState_def team_def)
  have unread: "map mid (filter (countsAsUnread 7 1 0) (messages teamStore)) = [60, 63]"
    by (simp add: teamStore_def teamMessage_def newMessage_def tombstoned_def
          countsAsUnread_def deletedForMember_def)
  have len: "length (filter (countsAsUnread 7 1 0) (messages teamStore)) = 2"
    using arg_cong [OF unread, of length] by simp
  have listed: "getUserGroups teamStore 1 = [(7, unreadCount teamStore 1 team)]"
    by (simp add: getUserGroups_def grp team_def memberOf_def)
  from group_unread_count [OF mem last, of teamStore]
  show ?thesis
    using mem last grp unread len listed by simp
qed


section \<open>Presence on disconnect\<close>

lemma getSocket_id: "getSocket st c = Some x \<Longrightarrow> sock_id x = c"
  by (auto simp: getSocket_def find_Some_iff)

lemma findUser_outbox [simp]: "findUser (st\<lparr>outbox := ob\<rparr>) = findUser st"
  by (simp add: findUser_def fun_eq_iff)

lemma notified_outbox [simp]: "notified (st\<lparr>outbox := ob\<rparr>) = notified st"
  by (simp add: notified_def fun_eq_iff)

lemma notifyLoop_outbox:
  "notifyLoop st user u name isOnline entries =
     st\<lparr>outbox := outbox st
        @ map (\<lambda>c. (c, if isOnline then UserOnline u name else UserOffline u name))
            (map ou_socketId (filter (notified st user u) entries))\<rparr>"
proof (induction entries arbitrary: st)
  case Nil
  show ?case by simp
next
  case (Cons entry entries)
  show ?case
    by (auto simp add: Cons.IH notified_def socketEmit_def Let_def getSocket_id
          split: option.splits)
qed

lemma notifyUserOnlineStatus_outbox:
  assumes "findUser st u = Some user"
  shows "notifyUserOnlineStatus st u name isOnline =
     st\<lparr>outbox := outbox st
        @ map (\<lambda>c. (c, if isOnline then UserOnline u name else UserOffline u name))
            (audience st user u)\<rparr>"
  using assms by (simp add: notifyUserOnlineStatus_def notifyLoop_outbox audience_def)

lemma notifyUserOnlineStatus_registry [simp]:
  "onlineUsers (notifyUserOnlineStatus st u name isOnline) = onlineUsers st"
  "sockets (notifyUserOnlineStatus st u name isOnline) = sockets st"
  "users (notifyUserOnlineStatus st u name isOnline) = users st"
  by (simp_all add: notifyUserOnlineStatus_def notifyLoop_outbox split: option.splits)

lemma audience_cong:
  "users st' = users st \<Longrightarrow> sockets st' = sockets st \<Longrightarrow> onlineUsers st' = onlineUsers st \<Longrightarrow>
   audience st' user u = audience st user u"
proof -
  assume same: "users st' = users st" "sockets st' = sockets st" "onlineUsers st' = onlineUsers st"
  have "notified st' user u = notified st user u"
    by (simp add: notified_def findUser_def getSocket_def same fun_eq_iff)
  then show ?thesis
    by (simp add: audience_def same)
qed

text \<open>
  C10: for every disconnect of a connection authenticated as user \<open>u\<close>, the registry
  entry keyed by \<open>u\<close> is deleted whatever socket id it records, so that afterwards the
  registry has no entry for \<open>u\<close>; and when the socket carries a user name and the user
  document exists, \<open>userOffline\<close> for \<open>u\<close> is sent to the connection of every other
  registered user with no block in either direction. Nothing in this depends on whether
  the entry named the disconnecting socket or a newer one.
\<close>

theorem disconnect_reports_offline:
  "onlineUsers (handleDisconnect st s) = mapDelete (userId s) (onlineUsers st) \<and>
   userId s \<notin> fst ` set (onlineUsers (handleDisconnect st s)) \<and>
   (sock_username s \<noteq> [] \<and> findUser st (userId s) = Some user \<longrightarrow>
      outbox (handleDisconnect st s) =
        outbox st @ map (\<lambda>c. (c, UserOffline (userId s) (sock_username s)))
                      (audience (handleDisconnect st s) user (userId s)))"
proof -
  let ?st3 = "st\<lparr>sockets := filter (\<lambda>c. sock_id c \<noteq> sock_id s) (sockets st),
                  onlineUsers := mapDelete (userId s) (onlineUsers st),
                  userRooms := (userRooms st)(userId s := None)\<rparr>"
  have registry: "onlineUsers (handleDisconnect st s) = mapDelete (userId s) (onlineUsers st)"
    by (simp add: handleDisconnect_def Let_def)
  have gone: "userId s \<notin> fst ` set (onlineUsers (handleDisconnect st s))"
    by (auto simp add: registry mapDelete_def)
  have told: "outbox (handleDisconnect st s) =
        outbox st @ map (\<lambda>c. (c, UserOffline (userId s) (sock_username s)))
                      (audience (handleDisconnect st s) user (userId s))"
    if "sock_username s \<noteq> []" "findUser st (userId s) = Some user"
  proof -
    have found: "findUser ?st3 (userId s) = Some user"
      using that(2) by (simp add: findUser_def)
    have run: "handleDisconnect st s = notifyUserOnlineStatus ?st3 (userId s) (sock_username s) False"
      using that(1) by (simp add: handleDisconnect_def Let_def)
    have same: "audience (handleDisconnect st s) user (userId s) = audience ?st3 user (userId s)"
      unfolding run by (rule audience_cong) simp_all
    show ?thesis
      unfolding same unfolding run notifyUserOnlineStatus_outbox [OF found] by simp
  qed
  from registry gone told show ?thesis by blast
qed

lemma reconnected_value:
  "onlineUsers reconnected = [online carolSocket, online aliceSocket2] \<and>
   sockets reconnected = [carolSocket, aliceSocket, aliceSocket2]"
  by (simp add: reconnected_def handleSocketConnection_def lobby_def Let_def
        notifyUserOnlineStatus_def socketEmit_def findUser_def getSocket_def
        online_def chatState_def alice_def bob_def carol_def aliceSocket_def aliceSocket2_def
        carolSocket_def)


lemma reconnected_users: "users reconnected = [alice, bob, carol]"
  by (simp add: reconnected_def handleSocketConnection_def lobby_def Let_def socketEmit_def
        chatState_def)

text \<open>
  After Alice's reconnect the registry names socket 11 for her. When the stale socket 10
  disconnects, her entry is deleted and Carol is told that Alice is offline, while
  socket 11 is still connected.
\<close>

theorem disconnect_reports_offline_witness:
  "findOnline reconnected 1 = Some \<lparr>ou_userId = 1, ou_socketId = 11, ou_username = ''alice''\<rparr> \<and>
   sock_id aliceSocket = 10 \<and>
   sock_username aliceSocket \<noteq> [] \<and>
   findUser reconnected (userId aliceSocket) = Some alice \<and>
   findOnline (handleDisconnect reconnected aliceSocket) 1 = None \<and>
   getSocket (handleDisconnect reconnected aliceSocket) 11 = Some aliceSocket2 \<and>
   outbox (handleDisconnect reconnected aliceSocket) =
     outbox reconnected @ [(30, UserOffline 1 ''alice'')]"
proof -
  let ?st = "handleDisconnect reconnected aliceSocket"
  have entry: "findOnline reconnected 1
                 = Some \<lparr>ou_userId = 1, ou_socketId = 11, ou_username = ''alice''\<rparr>"
    by (simp add: findOnline_def reconnected_value online_def carolSocket_def aliceSocket2_def)
  have name: "sock_username aliceSocket \<noteq> []" "sock_id aliceSocket = 10" "userId aliceSocket = 1"
      "sock_username aliceSocket = ''alice''"
    by (simp_all add: aliceSocket_def)
  have user: "findUser reconnected (userId aliceSocket) = Some alice"
    by (simp add: findUser_def reconnected_users alice_def aliceSocket_def)
  have after: "onlineUsers ?st = [online carolSocket]"
      "sockets ?st = [carolSocket, aliceSocket2]" "users ?st = [alice, bob, carol]"
    using name(1)
    by (simp_all add: handleDisconnect_def Let_def reconnected_value reconnected_users
          mapDelete_def online_def carolSocket_def aliceSocket_def aliceSocket2_def)
  have offline: "findOnline ?st 1 = None"
    by (simp add: findOnline_def after online_def carolSocket_def)
  have live: "getSocket ?st 11 = Some aliceSocket2"
    by (simp add: getSocket_def after carolSocket_def aliceSocket2_def)
  have told: "audience ?st alice (userId aliceSocket) = [30]"
    by (simp add: audience_def notified_def findUser_def getSocket_def after online_def
          carolSocket_def name(3) alice_def bob_def carol_def)
  from disconnect_reports_offline [of reconnected aliceSocket alice]
  show ?thesis
    using entry name user offline live told by simp
qed


section \<open>Receiver or group, never both, never neither\<close>

lemma preValidate_iff: "preValidate m = exactlyOneTarget m"
  by (auto simp add: preValidate_def exactlyOneTarget_def)

lemma storeOk_cong: "messages st' = messages st \<Longrightarrow> storeOk st' = storeOk st"
  by (simp add: storeOk_def)

lemma storeOk_saveNew:
  "saveNew st m now = Some (m', st') \<Longrightarrow> storeOk st \<Longrightarrow> storeOk st'"
  by (auto simp add: saveNew_def storeOk_def preValidate_iff exactlyOneTarget_def Let_def
        split: if_splits)

lemma replaceById_all: "list_all P ms \<Longrightarrow> P m \<Longrightarrow> list_all P (replaceById m ms)"
  by (induction ms) auto

lemma exactlyOneTarget_stamp [simp]:
  "exactlyOneTarget (m\<lparr>updatedAt := t\<rparr>) = exactlyOneTarget m"
  by (simp add: exactlyOneTarget_def)

lemma storeOk_saveExisting:
  "saveExisting st m b now = Some (m', st') \<Longrightarrow> storeOk st \<Longrightarrow> storeOk st'"
  by (auto simp add: saveExisting_def storeOk_def preValidate_iff Let_def
        intro!: replaceById_all split: if_splits)

lemma storeOk_update [simp]:
  "storeOk (st\<lparr>outbox := ob\<rparr>) = storeOk st"
  "storeOk (st\<lparr>groups := gs\<rparr>) = storeOk st"
  "storeOk (st\<lparr>nextObjectId := n\<rparr>) = storeOk st"
  "storeOk (st\<lparr>onlineUsers := os\<rparr>) = storeOk st"
  "storeOk (st\<lparr>sockets := ss\<rparr>) = storeOk st"
  "storeOk (st\<lparr>userRooms := rs\<rparr>) = storeOk st"
  by (simp_all add: storeOk_def)

lemma storeOk_emit [simp]:
  "storeOk (socketEmit st s e) = storeOk st"
  "storeOk (ioTo st c e) = storeOk st"
  "storeOk (ioToRoom st r e) = storeOk st"
  by (simp_all add: storeOk_def)

lemma storeOk_loops [simp]:
  "storeOk (fanOutNewMessage st msg ms) = storeOk st"
  "storeOk (emitGroupCreated st g ms) = storeOk st"
  "storeOk (emitMemberRemoved st g msg ms) = storeOk st"
  "storeOk (notifyLoop st user u name b es) = storeOk st"
proof -
  show "storeOk (fanOutNewMessage st msg ms) = storeOk st"
    by (induction ms arbitrary: st) (simp_all split: option.splits)
  show "storeOk (emitGroupCreated st g ms) = storeOk st"
    by (induction ms arbitrary: st) (simp_all split: option.splits)
  show "storeOk (emitMemberRemoved st g msg ms) = storeOk st"
    by (induction ms arbitrary: st) (simp_all split: option.splits)
  show "storeOk (notifyLoop st user u name b es) = storeOk st"
    by (induction es arbitrary: st) (simp_all add: Let_def split: option.splits)
qed

lemma storeOk_newObjectId: "newObjectId st = (i, st') \<Longrightarrow> storeOk st' = storeOk st"
  by (auto simp add: newObjectId_def)

lemma storeOk_handleSendMessage: "storeOk st \<Longrightarrow> storeOk (handleSendMessage st s d now)"
  by (auto simp add: handleSendMessage_def Let_def newObjectId_def
        split: option.splits prod.splits dest!: storeOk_saveNew)

lemma storeOk_sendMessage: "storeOk st \<Longrightarrow> storeOk (snd (sendMessage st u b now))"
  by (auto simp add: sendMessage_def Let_def newObjectId_def
        split: option.splits prod.splits dest!: storeOk_saveNew)

lemma storeOk_handleSendGroupMessage:
  "storeOk st \<Longrightarrow> storeOk (handleSendGroupMessage st s d now)"
  by (auto simp add: handleSendGroupMessage_def Let_def newObjectId_def
        split: option.splits prod.splits dest!: storeOk_saveNew)


lemma storeOk_createGroup: "storeOk st \<Longrightarrow> storeOk (snd (createGroup st u b now))"
  by (auto simp add: createGroup_def Let_def newObjectId_def
        split: option.splits prod.splits dest!: storeOk_saveNew)

lemma storeOk_addMembersToGroup:
  "storeOk st \<Longrightarrow> storeOk (snd (addMembersToGroup st u g ids now))"
  by (auto simp add: addMembersToGroup_def Let_def newObjectId_def
        split: option.splits prod.splits dest!: storeOk_saveNew)

lemma storeOk_leaveRoomById [simp]: "storeOk (leaveRoomById st c r) = storeOk st"
  by (simp add: leaveRoomById_def)

lemma storeOk_removeUserFromGroupRoom [simp]:
  "storeOk (removeUserFromGroupRoom st u g) = storeOk st"
  by (simp add: removeUserFromGroupRoom_def Let_def split: option.splits)

lemma storeOk_removeMemberFromGroup:
  "storeOk st \<Longrightarrow> storeOk (snd (removeMemberFromGroup st u name g m now))"
  by (auto simp add: removeMemberFromGroup_def Let_def newObjectId_def
        split: option.splits prod.splits dest!: storeOk_saveNew)

lemma storeOk_leaveGroup: "storeOk st \<Longrightarrow> storeOk (snd (leaveGroup st u g now))"
  by (auto simp add: leaveGroup_def Let_def newObjectId_def
        split: option.splits prod.splits dest!: storeOk_saveNew)

lemma storeOk_handleEditMessage: "storeOk st \<Longrightarrow> storeOk (handleEditMessage st s i t now)"
  by (auto simp add: handleEditMessage_def Let_def
        split: option.splits prod.splits dest!: storeOk_saveExisting)

lemma storeOk_editMessage: "storeOk st \<Longrightarrow> storeOk (snd (editMessage st u i t now))"
  by (auto simp add: editMessage_def Let_def
        split: option.splits prod.splits dest!: storeOk_saveExisting)

lemma storeOk_handleDeleteMessageForMe:
  "storeOk st \<Longrightarrow> storeOk (handleDeleteMessageForMe st s i now)"
  by (auto simp add: handleDeleteMessageForMe_def handleGroupMessageDeleteForMe_def
        handleNormalMessageDeleteForMe_def Let_def
        split: option.splits prod.splits dest!: storeOk_saveExisting)

lemma storeOk_deleteMessageForMe:
  "storeOk st \<Longrightarrow> storeOk (snd (deleteMessageForMe st u i now))"
  by (auto simp add: deleteMessageForMe_def Let_def
        split: option.splits prod.splits dest!: storeOk_saveExisting)

lemma storeOk_handleGroupMessageDeleteForEveryone:
  "storeOk st \<Longrightarrow> storeOk (handleGroupMessageDeleteForEveryone st s m now)"
  by (auto simp add: handleGroupMessageDeleteForEveryone_def
        split: option.splits prod.splits dest!: storeOk_saveExisting)

lemma storeOk_handleNormalMessageDeleteForEveryone:
  "storeOk st \<Longrightarrow> storeOk (handleNormalMessageDeleteForEveryone st s m now)"
  by (auto simp add: handleNormalMessageDeleteForEveryone_def Let_def
        split: option.splits prod.splits dest!: storeOk_saveExisting)

lemma storeOk_handleDeleteMessageForEveryone:
  "storeOk st \<Longrightarrow> storeOk (handleDeleteMessageForEveryone st s i now)"
  by (simp add: handleDeleteMessageForEveryone_def storeOk_handleGroupMessageDeleteForEveryone
        storeOk_handleNormalMessageDeleteForEveryone split: option.splits)

lemma storeOk_deleteMessageForEveryone:
  "storeOk st \<Longrightarrow> storeOk (snd (deleteMessageForEveryone st u i now))"
  by (auto simp add: deleteMessageForEveryone_def Let_def
        split: option.splits prod.splits dest!: storeOk_saveExisting)

lemma exactlyOneTarget_markRead [simp]:
  "exactlyOneTarget (markRead a b now m) = exactlyOneTarget m"
  by (simp add: markRead_def exactlyOneTarget_def)

lemma storeOk_markRead:
  "storeOk st \<Longrightarrow> storeOk (st\<lparr>messages := map (markRead a b now) (messages st)\<rparr>)"
  by (simp add: storeOk_def list_all_iff)

lemma storeOk_handleMarkMessagesAsRead:
  "storeOk st \<Longrightarrow> storeOk (handleMarkMessagesAsRead st s u now)"
  by (simp add: handleMarkMessagesAsRead_def Let_def storeOk_markRead split: option.splits)

lemma storeOk_markMessagesAsRead:
  "storeOk st \<Longrightarrow> storeOk (snd (markMessagesAsRead st u v now))"
  by (simp add: markMessagesAsRead_def storeOk_markRead)

lemma storeOk_presence:
  "storeOk (handleSocketConnection st s) = storeOk st"
  "storeOk (handleDisconnect st s) = storeOk st"
  by (simp_all add: handleSocketConnection_def handleDisconnect_def notifyUserOnlineStatus_def
        Let_def split: option.splits)

lemma storeOk_rooms:
  "storeOk (handleJoinChat st s u) = storeOk st"
  "storeOk (handleLeaveChat st s u) = storeOk st"
  "storeOk (handleJoinGroupChat st s g) = storeOk st"
  "storeOk (handleLeaveGroupChat st s g) = storeOk st"
  "storeOk (handleMarkGroupMessagesAsRead st s g now) = storeOk st"
  "storeOk (snd (markGroupMessagesAsRead st u g now)) = storeOk st"
  by (simp_all add: handleJoinChat_def handleLeaveChat_def handleJoinGroupChat_def
        handleLeaveGroupChat_def socketJoin_def socketLeave_def
        handleMarkGroupMessagesAsRead_def markGroupMessagesAsRead_def Let_def
        split: option.splits)

lemma storeOk_exec:
  assumes "storeOk st"
  shows "storeOk (exec st op)"
proof (cases op)
  case (SocketSend s d now)
  with assms show ?thesis by (simp add: storeOk_handleSendMessage)
next
  case (HttpSend u b now)
  with assms show ?thesis by (simp add: storeOk_sendMessage)
next
  case (SocketGroupSend s d now)
  with assms show ?thesis by (simp add: storeOk_handleSendGroupMessage)
next
  case (CreateGroup u b now)
  with assms show ?thesis by (simp add: storeOk_createGroup)
next
  case (AddMembers u g ids now)
  with assms show ?thesis by (simp add: storeOk_addMembersToGroup)
next
  case (RemoveMember u name g m now)
  with assms show ?thesis by (simp add: storeOk_removeMemberFromGroup)
next
  case (LeaveGroup u g now)
  with assms show ?thesis by (simp add: storeOk_leaveGroup)
next
  case (SocketEdit s i t now)
  with assms show ?thesis by (simp add: storeOk_handleEditMessage)
next
  case (HttpEdit u i t now)
  with assms show ?thesis by (simp add: storeOk_editMessage)
next
  case (SocketDeleteForMe s i now)
  with assms show ?thesis by (simp add: storeOk_handleDeleteMessageForMe)
next
  case (HttpDeleteForMe u i now)
  with assms show ?thesis by (simp add: storeOk_deleteMessageForMe)
next
  case (SocketDeleteForEveryone s i now)
  with assms show ?thesis by (simp add: storeOk_handleDeleteMessageForEveryone)
next
  case (HttpDeleteForEveryone u i now)
  with assms show ?thesis by (simp add: storeOk_deleteMessageForEveryone)
next
  case (SocketMarkRead s u now)
  with assms show ?thesis by (simp add: storeOk_handleMarkMessagesAsRead)
next
  case (HttpMarkRead u v now)
  with assms show ?thesis by (simp add: storeOk_markMessagesAsRead)
qed (use assms in \<open>simp_all add: storeOk_presence storeOk_rooms\<close>)


text \<open>
  C9: on a store where every message has exactly one of the receiver and the group field
  set (the empty store, to begin with), every sequence of operations leaves such a store:
  every create path (direct and group sends over the socket, the HTTP send, the system
  messages of group creation, member addition, removal and departure) stores only
  messages that satisfy the invariant, and every later mutation (edit, delete for me,
  delete for everyone, mark read) preserves it.
\<close>

theorem receiver_xor_group_invariant:
  assumes "list_all exactlyOneTarget (messages st)"
  shows "list_all exactlyOneTarget (messages (foldl exec st ops))"
proof -
  have "storeOk st \<Longrightarrow> storeOk (foldl exec st ops)"
    by (induction ops arbitrary: st) (simp_all add: storeOk_exec)
  with assms show ?thesis
    by (simp add: storeOk_def)
qed

lemma history_store:
  "map (\<lambda>m. (mid m, receiver m, groupRef m, msgText m)) (messages (foldl exec teamState history))
     = [(100, Some 1, None, Some ''hey''), (101, None, Some 7, Some tombstone)]"
  by (simp add: history_def handleSendMessage_def handleSendGroupMessage_def
        handleEditMessage_def handleDeleteMessageForMe_def handleNormalMessageDeleteForMe_def
        handleDeleteMessageForEveryone_def handleGroupMessageDeleteForEveryone_def
        handleMarkMessagesAsRead_def markRead_def
        newObjectId_def saveNew_def saveExisting_def preValidate_def textValid_def
        directMessageData_def newMessage_def textOrEmpty_def edited_def tombstoned_def
        tombstone_def trim_def isWhiteSpace_def twelveHoursInMs_def
        findOwnMessage_def findMessageById_def findMemberGroup_def findGroupById_def
        populatedReceiver_def populatedGroup_def receiverViewing_def chatRoom_def
        findOnline_def getSocket_def socketEmit_def ioTo_def ioToRoom_def
        senderUsernameOf_def blockedMembersOf_def blockingMembersOf_def
        teamState_def team_def memberOf_def hiTeam_def chat_scenario_defs Let_def)


text \<open>The history above, run from the empty store of the team's state.\<close>

theorem receiver_xor_group_invariant_witness:
  "list_all exactlyOneTarget (messages teamState) \<and>
   list_all exactlyOneTarget (messages (foldl exec teamState history)) \<and>
   map mid (messages (foldl exec teamState history)) = [100, 101] \<and>
   map receiver (messages (foldl exec teamState history)) = [Some 1, None] \<and>
   map groupRef (messages (foldl exec teamState history)) = [None, Some 7]"
proof -
  have empty: "list_all exactlyOneTarget (messages teamState)"
    by (simp add: teamState_def chatState_def)
  have "map (\<lambda>x. fst x) (map (\<lambda>m. (mid m, receiver m, groupRef m, msgText m))
            (messages (foldl exec teamState history))) = [100, 101]"
       "map (\<lambda>x. fst (snd x)) (map (\<lambda>m. (mid m, receiver m, groupRef m, msgText m))
            (messages (foldl exec teamState history))) = [Some 1, None]"
       "map (\<lambda>x. fst (snd (snd x))) (map (\<lambda>m. (mid m, receiver m, groupRef m, msgText m))
            (messages (foldl exec teamState history))) = [None, Some 7]"
    unfolding history_store by simp_all
  then have stored: "map mid (messages (foldl exec teamState history)) = [100, 101]"
      "map receiver (messages (foldl exec teamState history)) = [Some 1, None]"
      "map groupRef (messages (foldl exec teamState history)) = [None, Some 7]"
    by (simp_all add: comp_def)
  from receiver_xor_group_invariant [OF empty, of history] empty stored
  show ?thesis by simp
qed

end
